theory Spec2Isabelle
  imports Main
begin

section \<open>rbench: remote benchmarks on a short-lived EC2 instance\<close>

text \<open>
  The program (\<^verbatim>\<open>main.go\<close>, \<^verbatim>\<open>aws.go\<close>) is a sequence of calls to the operating system
  and to the cloud provider. The embedding makes both explicit: every answer the outside
  gives is a field of a record \<open>world\<close>, and every call the program issues is an
  \<open>event\<close> of a trace that the modelled function returns next to its result. A Go
  \<^verbatim>\<open>error\<close> is used by the program only through its message, so it is a string.
\<close>

subsection \<open>Strings and formatting\<close>

type_synonym err = string

definition nl :: char where
  "nl = CHR 0x0A"

definition cr :: char where
  "cr = CHR 0x0D"

text \<open>\<^verbatim>\<open>const clearStr\<close> of \<^verbatim>\<open>main.go\<close>: 108 blanks.\<close>

definition clearStr :: string where
  "clearStr = replicate 108 CHR '' ''"

text \<open>The verb \<^verbatim>\<open>%d\<close> of \<^verbatim>\<open>fmt.Sprintf\<close>: decimal digits, a minus sign for a negative number.\<close>

definition digits :: string where
  "digits = ''0123456789''"

fun fmt_nat :: "nat \<Rightarrow> string" where
  "fmt_nat n = (if n < 10 then [digits ! n] else fmt_nat (n div 10) @ [digits ! (n mod 10)])"

declare fmt_nat.simps [simp del]

definition fmt_d :: "int \<Rightarrow> string" where
  "fmt_d i = (if i < 0 then CHR ''-'' # fmt_nat (nat (- i)) else fmt_nat (nat i))"

text \<open>The verb \<^verbatim>\<open>%t\<close>.\<close>

definition fmt_t :: "bool \<Rightarrow> string" where
  "fmt_t b = (if b then ''true'' else ''false'')"

text \<open>\<^verbatim>\<open>strings.Contains\<close>: the second string occurs in the first as a contiguous block.\<close>

fun has_prefix :: "string \<Rightarrow> string \<Rightarrow> bool" where
  "has_prefix s [] = True"
| "has_prefix [] (c # sub) = False"
| "has_prefix (a # s) (c # sub) = (a = c \<and> has_prefix s sub)"

fun Contains :: "string \<Rightarrow> string \<Rightarrow> bool" where
  "Contains [] sub = (sub = [])"
| "Contains (a # s) sub = (has_prefix (a # s) sub \<or> Contains s sub)"

text \<open>\<^verbatim>\<open>strings.TrimSpace\<close>, on the ASCII white space a git commit id can be wrapped in.\<close>

definition is_space :: "char \<Rightarrow> bool" where
  "is_space c = (c = CHR '' '' \<or> c = CHR 0x09 \<or> c = CHR 0x0A \<or> c = CHR 0x0B \<or> c = CHR 0x0C \<or> c = CHR 0x0D)"

definition TrimSpace :: "string \<Rightarrow> string" where
  "TrimSpace s = rev (dropWhile is_space (rev (dropWhile is_space s)))"

subsection \<open>Flags, globals, the outside world\<close>

text \<open>
  The command-line flags of \<^verbatim>\<open>main.go\<close>, after \<^verbatim>\<open>flag.Parse\<close>. The two integer flags are
  only compared with 0 and printed, never computed with, so their width plays no role
  and they are integers.
\<close>

record flags =
  benchFlag :: string
  countFlag :: int
  cpuFlag :: int
  benchMem :: bool
  run :: string
  instanceType :: string

text \<open>The package-level variables of \<^verbatim>\<open>aws.go\<close> that the program reads back.\<close>

record globals =
  awsUserName :: string
  awsKeyName :: string

definition globals0 :: globals where
  "globals0 = \<lparr>awsUserName = [], awsKeyName = []\<rparr>"

text \<open>What a finished child process leaves: its two output streams and its error, if any.\<close>

record cmd_result =
  cmd_stdout :: string
  cmd_stderr :: string
  cmd_err :: "err option"

text \<open>The request of \<^verbatim>\<open>RunInstances\<close>, with the fields \<^verbatim>\<open>startInstance\<close> sets.\<close>

record run_input =
  ImageId :: string
  InstanceType :: string
  MinCount :: int
  MaxCount :: int
  KeyName :: string
  SecurityGroupIds :: "string list"
  Tags :: "(string \<times> string) list"

text \<open>
  The answers of the outside: the environment, the clock-seeded random source, the child
  processes (\<^verbatim>\<open>git\<close>, \<^verbatim>\<open>go\<close>, \<^verbatim>\<open>scp\<close>, \<^verbatim>\<open>ssh\<close>), the file system, the provider's API and
  the network. \<open>intn k i n\<close> is the \<open>i\<close>-th value \<^verbatim>\<open>rand.Intn(n)\<close> returns after the
  \<open>k\<close>-th seeding; \<open>dial i addr\<close> tells whether the \<open>i\<close>-th connection attempt reaches
  \<open>addr\<close>.
\<close>

record world =
  environ :: "string list"
  home :: string
  intn :: "nat \<Rightarrow> nat \<Rightarrow> nat \<Rightarrow> nat"
  lookPath :: "string \<Rightarrow> string"
  gitInside :: "err option"
  gitHead :: "err + string"
  gitStatus :: "err + string"
  goTest :: "string \<Rightarrow> cmd_result"
  statFile :: "string \<Rightarrow> err option"
  loadConfig :: "err option"
  getUser :: "err + string"
  createKeyPair :: "string \<Rightarrow> err + string"
  writeFile :: "string \<Rightarrow> err option"
  runInstances :: "run_input \<Rightarrow> err + string list"
  waitRunning :: "string \<Rightarrow> err + string"
  dial :: "nat \<Rightarrow> string \<Rightarrow> bool"
  scpRun :: cmd_result
  sshStart :: "err option"
  sshWait :: "err option"
  terminateInstances :: "string \<Rightarrow> err option"

text \<open>The calls the program issues, in the order it issues them.\<close>

datatype event =
    Exec string "string list" "string list"
  | Stat string
  | LoadDefaultConfig string
  | GetUser
  | CreateKeyPair string
  | WriteFile string string
  | RunInstances run_input
  | WaitRunning string
  | Dial string nat
  | ConnClose
  | Sleep nat
  | TerminateInstances string
  | Print string
  | Notify
  | CloseChan
  | Exit nat
  | Return
  | Killed

subsection \<open>\<^verbatim>\<open>aws.go\<close>\<close>

definition privateKeyPath :: "globals \<Rightarrow> world \<Rightarrow> string" where
  "privateKeyPath g w = home w @ ''/.ssh/'' @ awsKeyName g @ ''.pem''"

text \<open>
  \<^verbatim>\<open>initAWS\<close>: loads the SDK configuration, asks for the IAM user, derives the key name
  and creates the key pair. It returns the updated package variables and the error
  (\<open>None\<close> is Go's \<^verbatim>\<open>nil\<close>).
\<close>

definition initAWS :: "globals \<Rightarrow> world \<Rightarrow> event list \<times> globals \<times> err option" where
  "initAWS g w =
     (case loadConfig w of
        Some e \<Rightarrow> ([LoadDefaultConfig ''us-east-2''], g, Some (''unable to load SDK config, '' @ e))
      | None \<Rightarrow>
          (case getUser w of
             Inl e \<Rightarrow> ([LoadDefaultConfig ''us-east-2'', GetUser], g, Some (''unable to get user, '' @ e))
           | Inr name \<Rightarrow>
               (let g' = g\<lparr>awsUserName := name, awsKeyName := ''rbench-'' @ name\<rparr>;
                    evs = [LoadDefaultConfig ''us-east-2'', GetUser, CreateKeyPair (awsKeyName g')]
                in case createKeyPair w (awsKeyName g') of
                     Inr material \<Rightarrow>
                       (case writeFile w (privateKeyPath g' w) of
                          Some e \<Rightarrow> (evs @ [WriteFile (privateKeyPath g' w) material], g',
                                     Some (''unable to write private key to file, '' @ e))
                        | None \<Rightarrow> (evs @ [WriteFile (privateKeyPath g' w) material], g', None))
                   | Inl e \<Rightarrow>
                       (if \<not> Contains e ''InvalidKeyPair.Duplicate'' then (evs, g', Some e)
                        else (evs, g', None)))))"

text \<open>\<^verbatim>\<open>type instanceArch uint8\<close> with its three named values.\<close>

datatype instanceArch = archUnknown | archArm | archX86

text \<open>\<^verbatim>\<open>randString\<close> of \<^verbatim>\<open>main.go\<close>; \<open>k\<close> counts the earlier seedings of the generator.
  \<^verbatim>\<open>rand.Intn(n)\<close> answers below \<open>n\<close>, which the model writes as a remainder.\<close>

definition letters :: string where
  "letters = ''abcdefghijklmnopqrstuvwxyz''"

definition randString :: "world \<Rightarrow> nat \<Rightarrow> nat \<Rightarrow> string" where
  "randString w k n = map (\<lambda>i. letters ! (intn w k i (length letters) mod length letters)) [0..<n]"

text \<open>\<^verbatim>\<open>terminateInstance\<close>: announces the call, issues it, and reports its failure.\<close>

definition terminateInstance :: "world \<Rightarrow> string \<Rightarrow> event list \<times> err option" where
  "terminateInstance w instanceID =
     (case terminateInstances w instanceID of
        Some e \<Rightarrow>
          (let msg = ''unable to terminate instance, '' @ e
           in ([Print (''terminating instance '' @ instanceID @ [nl]), TerminateInstances instanceID,
                Print (''error:  '' @ msg @ [nl])], Some msg))
      | None \<Rightarrow>
          ([Print (''terminating instance '' @ instanceID @ [nl]), TerminateInstances instanceID], None))"

text \<open>
  The loop \<^verbatim>\<open>for i := 0; i < 5; i++\<close> of \<^verbatim>\<open>startInstance\<close>, from iteration \<open>i\<close> on: it
  dials with a timeout of 30 seconds, and sleeps 5 seconds after every attempt. The
  result tells whether an attempt connected.
\<close>

function sshProbe :: "world \<Rightarrow> string \<Rightarrow> nat \<Rightarrow> event list \<times> bool" where
  "sshProbe w addr i =
     (if i < 5 then
        (if dial w i addr then ([Dial addr 30, ConnClose, Sleep 5], True)
         else (case sshProbe w addr (Suc i) of (es, ok) \<Rightarrow> (Dial addr 30 # Sleep 5 # es, ok)))
      else ([], False))"
  by pat_completeness auto
termination
  by (relation "measure (\<lambda>(w, addr, i). 5 - i)") auto

declare sshProbe.simps [simp del]

definition x86AMI :: string where
  "x86AMI = ''ami-0ea3c35c5c3284d82''"

definition armAMI :: string where
  "armAMI = ''ami-01ebf7c0e446f85f9''"

definition instance_request :: "instanceArch \<Rightarrow> flags \<Rightarrow> globals \<Rightarrow> world \<Rightarrow> nat \<Rightarrow> run_input" where
  "instance_request arch fl g w k =
     \<lparr>ImageId = (if arch = archArm then armAMI else x86AMI),
      InstanceType = instanceType fl,
      MinCount = 1,
      MaxCount = 1,
      KeyName = awsKeyName g,
      SecurityGroupIds = [''sg-02718b1d52ed88934''],
      Tags = [(''rbench'', awsUserName g),
              (''Name'', ''rbench/'' @ awsUserName g @ ''/'' @ randString w k 7)]\<rparr>"

text \<open>
  \<^verbatim>\<open>startInstance\<close>: on success the public address and the id of the instance, in the
  order of the Go results.
\<close>

definition startInstance ::
  "instanceArch \<Rightarrow> flags \<Rightarrow> globals \<Rightarrow> world \<Rightarrow> nat \<Rightarrow> event list \<times> (err + string \<times> string)" where
  "startInstance arch fl g w k =
     (let inp = instance_request arch fl g w k in
      case runInstances w inp of
        Inl e \<Rightarrow> ([RunInstances inp], Inl (''unable to run instance, '' @ e))
      | Inr insts \<Rightarrow>
          (if length insts \<noteq> 1 then
             ([RunInstances inp], Inl (''expected 1 instance, got '' @ fmt_d (int (length insts))))
           else
             (let instanceID = insts ! 0 in
              case waitRunning w instanceID of
                Inl e \<Rightarrow>
                  ([RunInstances inp, WaitRunning instanceID] @ fst (terminateInstance w instanceID),
                   Inl (''error waiting for instance to be running, '' @ e))
              | Inr publicIP \<Rightarrow>
                  (case sshProbe w (publicIP @ '':22'') 0 of
                     (es, True) \<Rightarrow>
                       ([RunInstances inp, WaitRunning instanceID] @ es, Inr (publicIP, instanceID))
                   | (es, False) \<Rightarrow>
                       ([RunInstances inp, WaitRunning instanceID] @ es
                          @ fst (terminateInstance w instanceID),
                        Inl ''unable to connect to instance'')))))"

subsection \<open>\<^verbatim>\<open>main.go\<close>: the two remote commands\<close>

text \<open>The argument vector \<^verbatim>\<open>sshExec\<close> hands to \<^verbatim>\<open>exec.Command("ssh", args...)\<close>.\<close>

definition sshExec_args :: "flags \<Rightarrow> globals \<Rightarrow> world \<Rightarrow> string \<Rightarrow> string list" where
  "sshExec_args fl g w publicIP =
     (let args = [''-i'', privateKeyPath g w,
                  ''ubuntu@'' @ publicIP,
                  ''cd /tmp && ./bench'',
                  ''-test.bench='' @ benchFlag fl,
                  ''-test.count='' @ fmt_d (countFlag fl),
                  ''-test.benchmem='' @ fmt_t (benchMem fl),
                  ''-test.run='' @ run fl]
      in if cpuFlag fl > 0 then args @ [''-test.cpu='' @ fmt_d (cpuFlag fl)] else args)"

text \<open>The argument vector of the \<^verbatim>\<open>scp\<close> command.\<close>

definition scp_args :: "globals \<Rightarrow> world \<Rightarrow> string \<Rightarrow> string \<Rightarrow> string list" where
  "scp_args g w benchFileName publicIP =
     [''-o'', ''StrictHostKeyChecking=no'', ''-i'', privateKeyPath g w, benchFileName,
      ''ubuntu@'' @ publicIP @ '':/tmp/bench'']"

subsection \<open>\<^verbatim>\<open>main.go\<close>: the steps\<close>

text \<open>
  An \<open>Exec\<close> event carries the command, its arguments and the environment set on the
  command (\<open>[]\<close> when the Go code leaves \<^verbatim>\<open>cmd.Env\<close> alone).
\<close>

definition gitCommitID :: "world \<Rightarrow> event list \<times> (err + string)" where
  "gitCommitID w =
     (let e1 = Exec ''git'' [''rev-parse'', ''--is-inside-work-tree''] [];
          e2 = Exec ''git'' [''rev-parse'', ''HEAD''] [];
          e3 = Exec ''git'' [''status'', ''--porcelain''] []
      in case gitInside w of
           Some e \<Rightarrow> ([e1], Inr ''not a git repo'')
         | None \<Rightarrow>
             (case gitHead w of
                Inl e \<Rightarrow> ([e1, e2], Inl e)
              | Inr out \<Rightarrow>
                  (case gitStatus w of
                     Inl e \<Rightarrow> ([e1, e2, e3], Inl e)
                   | Inr out2 \<Rightarrow>
                       ([e1, e2, e3],
                        Inr (if length out2 > 0 then TrimSpace out @ ''-dirty'' else TrimSpace out)))))"

definition compile_env :: "world \<Rightarrow> string list" where
  "compile_env w = environ w @ [''GOOS=linux'', ''GOARCH=amd64'']"

definition compileBenchmarkBinary :: "world \<Rightarrow> nat \<Rightarrow> event list \<times> (err + string)" where
  "compileBenchmarkBinary w k =
     (let benchFileName = ''/tmp/bench-'' @ randString w k 7;
          args = [''test'', ''-c'', ''-o'', benchFileName];
          r = goTest w benchFileName
      in case cmd_err r of
           Some e \<Rightarrow>
             ([Exec ''go'' args (compile_env w)],
              Inl (''failed to cross build the package: '' @ [nl] @ ''stdout: '' @ cmd_stdout r
                   @ [nl] @ ''stderr: '' @ cmd_stderr r @ '', '' @ e))
         | None \<Rightarrow>
             (case statFile w benchFileName of
                Some e \<Rightarrow>
                  ([Exec ''go'' args (compile_env w), Stat benchFileName],
                   Inl (''binary not found: '' @ e @ '' - cmd ''
                        @ lookPath w ''go'' @ concat (map (\<lambda>a. CHR '' '' # a) args) @ '' failed''))
              | None \<Rightarrow> ([Exec ''go'' args (compile_env w), Stat benchFileName], Inr benchFileName)))"

definition scp :: "globals \<Rightarrow> world \<Rightarrow> string \<Rightarrow> string \<Rightarrow> event list \<times> err option" where
  "scp g w benchFileName publicIP =
     (let r = scpRun w in
      case cmd_err r of
        Some e \<Rightarrow>
          ([Exec ''scp'' (scp_args g w benchFileName publicIP) []],
           Some (''failed to upload the binary: '' @ [nl] @ ''stdout: '' @ cmd_stdout r
                 @ [nl] @ ''stderr: '' @ cmd_stderr r @ '', '' @ e))
      | None \<Rightarrow> ([Exec ''scp'' (scp_args g w benchFileName publicIP) []], None))"

text \<open>\<^verbatim>\<open>sshExec\<close>; the copying of the remote output to the terminal is not an event.\<close>

definition sshExec :: "flags \<Rightarrow> globals \<Rightarrow> world \<Rightarrow> string \<Rightarrow> event list \<times> err option" where
  "sshExec fl g w publicIP =
     (case sshStart w of
        Some e \<Rightarrow> ([Exec ''ssh'' (sshExec_args fl g w publicIP) []],
                   Some (''failed to start the SSH command: '' @ e))
      | None \<Rightarrow>
          (case sshWait w of
             Some e \<Rightarrow> ([Exec ''ssh'' (sshExec_args fl g w publicIP) []],
                        Some (''failed to run the benchmark: '' @ e))
           | None \<Rightarrow> ([Exec ''ssh'' (sshExec_args fl g w publicIP) []], None)))"

text \<open>The line \<^verbatim>\<open>fmt.Printf("error: %v\n", err)\<close>.\<close>

definition print_error :: "err \<Rightarrow> event" where
  "print_error e = Print (''error: '' @ e @ [nl])"

subsection \<open>\<^verbatim>\<open>main.go\<close>: the orchestration\<close>

text \<open>What \<^verbatim>\<open>main\<close> holds once the instance is up.\<close>

record provisioned =
  commitID :: string
  benchFileName :: string
  vars :: globals
  publicIP :: string
  instanceID :: string

text \<open>
  \<^verbatim>\<open>main\<close> up to the return of \<^verbatim>\<open>startInstance\<close> (lines 50 to 77). \<^verbatim>\<open>main.go\<close> calls
  \<^verbatim>\<open>startInstance()\<close> with no argument while \<^verbatim>\<open>aws.go\<close> declares one, the architecture;
  the model takes it as a parameter. \<^verbatim>\<open>randString\<close> seeds the generator for the first time
  in \<^verbatim>\<open>compileBenchmarkBinary\<close> and for the second time in \<^verbatim>\<open>startInstance\<close>.
\<close>

definition provision :: "flags \<Rightarrow> instanceArch \<Rightarrow> world \<Rightarrow> event list \<times> provisioned option" where
  "provision fl arch w =
     (case gitCommitID w of
        (t1, Inl e) \<Rightarrow> (t1 @ [print_error e], None)
      | (t1, Inr cid) \<Rightarrow>
          (case compileBenchmarkBinary w 0 of
             (t2, Inl e) \<Rightarrow> (t1 @ t2 @ [print_error e], None)
           | (t2, Inr file) \<Rightarrow>
               (case initAWS globals0 w of
                  (t3, g, Some e) \<Rightarrow> (t1 @ t2 @ t3 @ [print_error e], None)
                | (t3, g, None) \<Rightarrow>
                    (let t4 = [Print (cr # ''starting '' @ instanceType fl @ '' instance...'' @ clearStr)]
                     in case startInstance arch fl g w 1 of
                          (t5, Inl e) \<Rightarrow> (t1 @ t2 @ t3 @ t4 @ t5 @ [print_error e], None)
                        | (t5, Inr (ip, iid)) \<Rightarrow>
                            (t1 @ t2 @ t3 @ t4 @ t5,
                             Some \<lparr>commitID = cid, benchFileName = file, vars = g,
                                   publicIP = ip, instanceID = iid\<rparr>)))))"

text \<open>The goroutine of lines 84 to 109: upload, header, benchmark, and in the end it closes the channel.\<close>

definition worker :: "flags \<Rightarrow> world \<Rightarrow> provisioned \<Rightarrow> event list" where
  "worker fl w p =
     (let t0 = [Print (cr # ''ssh ready ('' @ publicIP p @ ''). uploading benchmark binary...'' @ clearStr)]
      in case scp (vars p) w (benchFileName p) (publicIP p) of
           (t1, Some e) \<Rightarrow> t0 @ t1 @ [print_error e, CloseChan]
         | (t1, None) \<Rightarrow>
             (let t2 = [Print (cr # ''running benchmark...'' @ clearStr @ [nl]),
                        Print (''ec2-user: '' @ awsUserName (vars p) @ [nl]),
                        Print (''instance IP: '' @ publicIP p @ [nl]),
                        Print (''instance type: '' @ instanceType fl @ [nl]),
                        Print (''commit ID: '' @ commitID p @ [nl])]
              in case sshExec fl (vars p) w (publicIP p) of
                   (t3, Some e) \<Rightarrow> t0 @ t1 @ t2 @ t3 @ [print_error e, CloseChan]
                 | (t3, None) \<Rightarrow> t0 @ t1 @ t2 @ t3 @ [CloseChan]))"

text \<open>
  When a signal reaches the process. The program registers its channel with
  \<^verbatim>\<open>signal.Notify\<close> on line 82, after \<^verbatim>\<open>startInstance\<close> has returned; until then the Go
  runtime keeps the default disposition of SIGINT, SIGTERM, SIGHUP and SIGQUIT, which
  ends the process at once.
  \<^item> \<open>BeforeNotify k\<close>: the signal arrives when \<^verbatim>\<open>main\<close> has issued \<open>k\<close> of its events (all
    of them when there are fewer) and the channel is not registered.
  \<^item> \<open>WhileWaiting n\<close>: the signal arrives while \<^verbatim>\<open>main\<close> waits on the registered, open
    channel; the goroutine gets to issue \<open>n\<close> of its events (all of them when there are
    fewer) before \<^verbatim>\<open>os.Exit\<close> ends the process.
  \<^item> \<open>NoSignal\<close>: the goroutine runs to its end and closes the channel.
  A signal that arrives after the goroutine has closed the channel is not represented.
\<close>

datatype signal = NoSignal | BeforeNotify nat | WhileWaiting nat

text \<open>A run: the events of \<^verbatim>\<open>main\<close> and those of its goroutine.\<close>

record run_trace =
  mainTrace :: "event list"
  workerTrace :: "event list"

definition main :: "flags \<Rightarrow> instanceArch \<Rightarrow> world \<Rightarrow> signal \<Rightarrow> run_trace" where
  "main fl arch w sig =
     (case provision fl arch w of (pre, r) \<Rightarrow>
        (case sig of
           BeforeNotify k \<Rightarrow> \<lparr>mainTrace = take k pre @ [Killed], workerTrace = []\<rparr>
         | _ \<Rightarrow>
             (case r of
                None \<Rightarrow> \<lparr>mainTrace = pre @ [Return], workerTrace = []\<rparr>
              | Some p \<Rightarrow>
                  \<lparr>mainTrace = pre @ [Notify] @ fst (terminateInstance w (instanceID p)) @ [Exit 0],
                   workerTrace = (case sig of WhileWaiting n \<Rightarrow> take n (worker fl w p)
                                  | _ \<Rightarrow> worker fl w p)\<rparr>)))"

text \<open>How often a trace issues the provider's termination call, for whatever instance.\<close>

definition is_terminate :: "event \<Rightarrow> bool" where
  "is_terminate ev = (case ev of TerminateInstances i \<Rightarrow> True | _ \<Rightarrow> False)"

definition terminate_calls :: "event list \<Rightarrow> nat" where
  "terminate_calls t = length (filter is_terminate t)"

definition is_run_instances :: "event \<Rightarrow> bool" where
  "is_run_instances ev = (case ev of RunInstances i \<Rightarrow> True | _ \<Rightarrow> False)"

definition is_dial :: "event \<Rightarrow> bool" where
  "is_dial ev = (case ev of Dial a t \<Rightarrow> True | _ \<Rightarrow> False)"

text \<open>The event starts the child process \<open>c\<close>.\<close>

definition is_cmd :: "string \<Rightarrow> event \<Rightarrow> bool" where
  "is_cmd c ev = (case ev of Exec c' a e \<Rightarrow> c' = c | _ \<Rightarrow> False)"

subsection \<open>Concrete runs\<close>

text \<open>The default flags of \<^verbatim>\<open>main.go\<close>, and a command line that sets all of them.\<close>

definition fl0 :: flags where
  "fl0 = \<lparr>benchFlag = ''.'', countFlag = 5, cpuFlag = 0, benchMem = False, run = ''NONE'',
          instanceType = ''t2.micro''\<rparr>"

definition fl1 :: flags where
  "fl1 = \<lparr>benchFlag = ''BenchmarkDummy'', countFlag = 10, cpuFlag = 4, benchMem = True,
          run = ''NONE'', instanceType = ''c5.large''\<rparr>"

definition g1 :: globals where
  "g1 = \<lparr>awsUserName = ''bob'', awsKeyName = ''rbench-bob''\<rparr>"

definition ok_cmd :: cmd_result where
  "ok_cmd = \<lparr>cmd_stdout = [], cmd_stderr = [], cmd_err = None\<rparr>"

text \<open>A world in which every call succeeds at once.\<close>

definition w0 :: world where
  "w0 = \<lparr>environ = [''PATH=/usr/bin''], home = ''/home/bob'',
         intn = (\<lambda>k i n. i + k),
         lookPath = (\<lambda>c. ''/usr/bin/'' @ c),
         gitInside = None, gitHead = Inr ''0123abc'', gitStatus = Inr [],
         goTest = (\<lambda>f. ok_cmd), statFile = (\<lambda>f. None),
         loadConfig = None, getUser = Inr ''bob'',
         createKeyPair = (\<lambda>k. Inr ''KEY''), writeFile = (\<lambda>f. None),
         runInstances = (\<lambda>i. Inr [''i-01'']), waitRunning = (\<lambda>i. Inr ''1.2.3.4''),
         dial = (\<lambda>i a. True),
         scpRun = ok_cmd, sshStart = None, sshWait = None,
         terminateInstances = (\<lambda>i. None)\<rparr>"

text \<open>The key pair exists already.\<close>

definition w_dup :: world where
  "w_dup = w0\<lparr>createKeyPair :=
       (\<lambda>k. Inl ''api error InvalidKeyPair.Duplicate: The keypair already exists'')\<rparr>"

text \<open>The key pair cannot be created for another reason.\<close>

definition w_denied :: world where
  "w_denied = w0\<lparr>createKeyPair := (\<lambda>k. Inl ''api error UnauthorizedOperation'')\<rparr>"

text \<open>The remote shell port answers from the sixth attempt on.\<close>

definition w_late :: world where
  "w_late = w0\<lparr>dial := (\<lambda>i a. 5 \<le> i)\<rparr>"

text \<open>The remote shell port answers from the second attempt on.\<close>

definition w_retry :: world where
  "w_retry = w0\<lparr>dial := (\<lambda>i a. 1 \<le> i)\<rparr>"

text \<open>The instance does not reach the running state in time.\<close>

definition w_nowait :: world where
  "w_nowait = w0\<lparr>waitRunning := (\<lambda>i. Inl ''exceeded max wait time'')\<rparr>"

text \<open>The provider answers with two instances.\<close>

definition w_two :: world where
  "w_two = w0\<lparr>runInstances := (\<lambda>i. Inr [''i-01'', ''i-02''])\<rparr>"

text \<open>The build fails.\<close>

definition w_nobuild :: world where
  "w_nobuild = w0\<lparr>goTest := (\<lambda>f. \<lparr>cmd_stdout = [], cmd_stderr = ''no Go files'',
                                       cmd_err = Some ''exit status 1''\<rparr>)\<rparr>"

text \<open>The instance cannot be terminated, and before that it does not reach the running state.\<close>

definition w_leak :: world where
  "w_leak = w0\<lparr>waitRunning := (\<lambda>i. Inl ''exceeded max wait time''),
               terminateInstances := (\<lambda>i. Some ''RequestLimitExceeded'')\<rparr>"

text \<open>The upload fails.\<close>

definition w_noscp :: world where
  "w_noscp = w0\<lparr>scpRun := \<lparr>cmd_stdout = [], cmd_stderr = ''Permission denied'',
                             cmd_err = Some ''exit status 255''\<rparr>\<rparr>"

text \<open>What \<^verbatim>\<open>main\<close> holds in the world \<open>w0\<close> once the instance is up.\<close>

definition p0 :: provisioned where
  "p0 = \<lparr>commitID = ''0123abc'', benchFileName = ''/tmp/bench-abcdefg'', vars = g1,
          publicIP = ''1.2.3.4'', instanceID = ''i-01''\<rparr>"

subsection \<open>Reading traces\<close>

text \<open>
  The provider ends an instance when it is asked to and accepts the request: a trace
  has terminated the instance \<open>iid\<close> when it has issued \<^verbatim>\<open>TerminateInstances\<close> for it and
  that call returned no error.
\<close>

definition terminated :: "world \<Rightarrow> event list \<Rightarrow> string \<Rightarrow> bool" where
  "terminated w t iid = (TerminateInstances iid \<in> set t \<and> terminateInstances w iid = None)"

text \<open>
  How the two remote commands name a file. The target of \<^verbatim>\<open>scp\<close> is \<^verbatim>\<open>host:path\<close>. The
  remote command \<^verbatim>\<open>cd DIR && ./FILE\<close> executes the file \<^verbatim>\<open>DIR/FILE\<close>.
\<close>

fun strip_prefix :: "string \<Rightarrow> string \<Rightarrow> string option" where
  "strip_prefix [] s = Some s"
| "strip_prefix (c # pre) [] = None"
| "strip_prefix (c # pre) (a # s) = (if a = c then strip_prefix pre s else None)"

definition upload_path :: "string \<Rightarrow> string \<Rightarrow> string option" where
  "upload_path host target = strip_prefix (host @ '':'') target"

definition executed_path :: "string \<Rightarrow> string option" where
  "executed_path cmd =
     (case strip_prefix ''cd '' cmd of
        None \<Rightarrow> None
      | Some rest \<Rightarrow>
          (case strip_prefix '' && ./'' (dropWhile (\<lambda>c. c \<noteq> CHR '' '') rest) of
             None \<Rightarrow> None
           | Some name \<Rightarrow> Some (takeWhile (\<lambda>c. c \<noteq> CHR '' '') rest @ ''/'' @ name)))"

section \<open>Properties\<close>

subsection \<open>Formatting and searching\<close>

lemma fmt_nat_nonempty: "fmt_nat n \<noteq> []"
  by (subst fmt_nat.simps) simp

lemma digit_inj: "a < 10 \<Longrightarrow> b < 10 \<Longrightarrow> digits ! a = digits ! b \<Longrightarrow> a = b"
proof -
  assume "a < 10" "b < 10" "digits ! a = digits ! b"
  moreover have "distinct digits" by (simp add: digits_def)
  moreover have "length digits = 10" by (simp add: digits_def)
  ultimately show ?thesis by (simp add: nth_eq_iff_index_eq)
qed


lemma fmt_nat_inj: "fmt_nat a = fmt_nat b \<Longrightarrow> a = b"
proof (induction a arbitrary: b rule: fmt_nat.induct)
  case (1 n)
  show ?case
  proof (cases "n < 10")
    case True
    then have n: "fmt_nat n = [digits ! n]" by (subst fmt_nat.simps) simp
    show ?thesis
    proof (cases "b < 10")
      case True
      then have "fmt_nat b = [digits ! b]" by (subst fmt_nat.simps) simp
      with n "1.prems" have "digits ! n = digits ! b" by simp
      with \<open>n < 10\<close> True show ?thesis by (rule digit_inj)
    next
      case False
      then have "fmt_nat b = fmt_nat (b div 10) @ [digits ! (b mod 10)]" by (subst fmt_nat.simps) simp
      with n "1.prems" have "fmt_nat (b div 10) = []" by (metis butlast.simps(2) butlast_snoc)
      then show ?thesis using fmt_nat_nonempty by blast
    qed
  next
    case False
    then have n: "fmt_nat n = fmt_nat (n div 10) @ [digits ! (n mod 10)]" by (subst fmt_nat.simps) simp
    show ?thesis
    proof (cases "b < 10")
      case True
      then have "fmt_nat b = [digits ! b]" by (subst fmt_nat.simps) simp
      with n "1.prems" have "fmt_nat (n div 10) @ [digits ! (n mod 10)] = [] @ [digits ! b]" by simp
      then have "fmt_nat (n div 10) = []" by (simp only: append1_eq_conv)
      then show ?thesis using fmt_nat_nonempty by blast
    next
      case b: False
      then have "fmt_nat b = fmt_nat (b div 10) @ [digits ! (b mod 10)]" by (subst fmt_nat.simps) simp
      with n "1.prems" have eq: "fmt_nat (n div 10) = fmt_nat (b div 10)" "digits ! (n mod 10) = digits ! (b mod 10)"
        by simp_all
      from "1.IH" [OF False eq(1)] have d: "n div 10 = b div 10" .
      have "n mod 10 = b mod 10" using eq(2) by (intro digit_inj) simp_all
      with d show ?thesis by (metis div_mult_mod_eq)
    qed
  qed
qed

lemma fmt_nat_no_minus: "CHR ''-'' \<notin> set (fmt_nat n)"
proof (induction n rule: fmt_nat.induct)
  case (1 n)
  have dig: "\<And>d. d < 10 \<Longrightarrow> digits ! d \<noteq> CHR ''-''"
  proof -
    fix d :: nat assume "d < 10"
    moreover have "length digits = 10" by (simp add: digits_def)
    ultimately have "digits ! d \<in> set digits" by (metis nth_mem)
    then show "digits ! d \<noteq> CHR ''-''" by (auto simp: digits_def)
  qed
  show ?case
  proof (cases "n < 10")
    case True
    then show ?thesis using dig [of n] by (subst fmt_nat.simps) simp
  next
    case False
    then show ?thesis using dig [of "n mod 10"] "1.IH" by (subst fmt_nat.simps) simp
  qed
qed

lemma fmt_d_inj: "fmt_d a = fmt_d b \<Longrightarrow> a = b"
proof -
  assume eq: "fmt_d a = fmt_d b"
  have hd_pos: "\<And>n. hd (fmt_nat n) \<noteq> CHR ''-''"
    using fmt_nat_no_minus fmt_nat_nonempty by (metis hd_in_set)
  show ?thesis
  proof (cases "a < 0")
    case True
    show ?thesis
    proof (cases "b < 0")
      case b: True
      with True eq have "fmt_nat (nat (- a)) = fmt_nat (nat (- b))" by (simp add: fmt_d_def)
      then have "nat (- a) = nat (- b)" by (rule fmt_nat_inj)
      with True b show ?thesis by simp
    next
      case False
      with True eq have "CHR ''-'' # fmt_nat (nat (- a)) = fmt_nat (nat b)" by (simp add: fmt_d_def)
      then have "hd (fmt_nat (nat b)) = CHR ''-''" by (metis list.sel(1))
      with hd_pos show ?thesis by blast
    qed
  next
    case False
    show ?thesis
    proof (cases "b < 0")
      case True
      with False eq have "fmt_nat (nat a) = CHR ''-'' # fmt_nat (nat (- b))" by (simp add: fmt_d_def)
      then have "hd (fmt_nat (nat a)) = CHR ''-''" by (metis list.sel(1))
      with hd_pos show ?thesis by blast
    next
      case b: False
      with False eq have "fmt_nat (nat a) = fmt_nat (nat b)" by (simp add: fmt_d_def)
      then have "nat a = nat b" by (rule fmt_nat_inj)
      with False b show ?thesis by simp
    qed
  qed
qed

subsection \<open>The remote commands\<close>

lemma sshExec_trace: "fst (sshExec fl g w ip) = [Exec ''ssh'' (sshExec_args fl g w ip) []]"
  by (simp add: sshExec_def split: option.splits)

lemma scp_trace: "fst (scp g w file ip) = [Exec ''scp'' (scp_args g w file ip) []]"
  by (simp add: scp_def Let_def split: option.splits)

lemma sshExec_args_explicit:
  "sshExec_args fl g w ip =
     [''-i'', privateKeyPath g w, ''ubuntu@'' @ ip, ''cd /tmp && ./bench'',
      ''-test.bench='' @ benchFlag fl, ''-test.count='' @ fmt_d (countFlag fl),
      ''-test.benchmem='' @ fmt_t (benchMem fl), ''-test.run='' @ run fl]
     @ (if 0 < cpuFlag fl then [''-test.cpu='' @ fmt_d (cpuFlag fl)] else [])"
  by (simp add: sshExec_args_def)

lemma fmt_t_inj: "fmt_t a = fmt_t b \<Longrightarrow> a = b"
  by (cases a; cases b) (simp_all add: fmt_t_def)

lemma sshExec_args_decode:
  assumes "sshExec_args fl' g w ip = sshExec_args fl g w ip"
  shows "benchFlag fl' = benchFlag fl \<and> countFlag fl' = countFlag fl \<and> benchMem fl' = benchMem fl
         \<and> run fl' = run fl \<and> (0 < cpuFlag fl') = (0 < cpuFlag fl)
         \<and> (if 0 < cpuFlag fl then cpuFlag fl' = cpuFlag fl else True)"
proof -
  let ?tail = "\<lambda>f. if 0 < cpuFlag f then [''-test.cpu='' @ fmt_d (cpuFlag f)] else []"
  from assms have eq:
    "''-test.bench='' @ benchFlag fl' = ''-test.bench='' @ benchFlag fl"
    "''-test.count='' @ fmt_d (countFlag fl') = ''-test.count='' @ fmt_d (countFlag fl)"
    "''-test.benchmem='' @ fmt_t (benchMem fl') = ''-test.benchmem='' @ fmt_t (benchMem fl)"
    "''-test.run='' @ run fl' = ''-test.run='' @ run fl"
    "?tail fl' = ?tail fl"
    unfolding sshExec_args_explicit by simp_all
  from eq(1) have b: "benchFlag fl' = benchFlag fl" by simp
  from eq(2) have "fmt_d (countFlag fl') = fmt_d (countFlag fl)" by simp
  then have c: "countFlag fl' = countFlag fl" by (rule fmt_d_inj)
  from eq(3) have "fmt_t (benchMem fl') = fmt_t (benchMem fl)" by simp
  then have m: "benchMem fl' = benchMem fl" by (rule fmt_t_inj)
  from eq(4) have r: "run fl' = run fl" by simp
  from eq(5) have p: "(0 < cpuFlag fl') = (0 < cpuFlag fl)" by (auto split: if_splits)
  have u: "cpuFlag fl' = cpuFlag fl" if "0 < cpuFlag fl"
  proof -
    from that p eq(5) have "fmt_d (cpuFlag fl') = fmt_d (cpuFlag fl)" by simp
    then show ?thesis by (rule fmt_d_inj)
  qed
  from b c m r p u show ?thesis by simp
qed

lemma ssh_event_of_worker:
  assumes "Exec ''ssh'' args env \<in> set (worker fl w p)"
  shows "args = sshExec_args fl (vars p) w (publicIP p)"
proof -
  have s: "fst (scp (vars p) w (benchFileName p) (publicIP p))
             = [Exec ''scp'' (scp_args (vars p) w (benchFileName p) (publicIP p)) []]"
    by (rule scp_trace)
  have h: "fst (sshExec fl (vars p) w (publicIP p))
             = [Exec ''ssh'' (sshExec_args fl (vars p) w (publicIP p)) []]"
    by (rule sshExec_trace)
  obtain t1 r1 where r1: "scp (vars p) w (benchFileName p) (publicIP p) = (t1, r1)" by force
  obtain t3 r3 where r3: "sshExec fl (vars p) w (publicIP p) = (t3, r3)" by force
  from s r1 have t1: "t1 = [Exec ''scp'' (scp_args (vars p) w (benchFileName p) (publicIP p)) []]" by simp
  from h r3 have t3: "t3 = [Exec ''ssh'' (sshExec_args fl (vars p) w (publicIP p)) []]" by simp
  from assms show ?thesis
    unfolding worker_def Let_def r1 r3 t1 t3
    by (cases r1; cases r3) (auto simp: print_error_def)
qed

lemma worker_of_run:
  assumes "ev \<in> set (workerTrace (main fl arch w sig))"
  shows "\<exists>p. snd (provision fl arch w) = Some p \<and> ev \<in> set (worker fl w p)"
proof -
  obtain pre r where pr: "provision fl arch w = (pre, r)" by force
  show ?thesis
  proof (cases r)
    case None
    with assms pr show ?thesis by (cases sig) (simp_all add: main_def)
  next
    case (Some p)
    with assms pr show ?thesis
      by (cases sig) (auto simp: main_def dest: in_set_takeD)
  qed
qed

text \<open>
  C1. Whenever a run gets to the remote execution (so the local build has succeeded), the
  command is \<^verbatim>\<open>ssh\<close> with the arguments \<^verbatim>\<open>sshExec\<close> builds, and these carry the local flag
  values: \<^verbatim>\<open>-test.bench\<close>, \<^verbatim>\<open>-test.count\<close>, \<^verbatim>\<open>-test.benchmem\<close> and \<^verbatim>\<open>-test.run\<close> always,
  \<^verbatim>\<open>-test.cpu\<close> exactly when the local cpu flag is greater than 0. The values can be read
  back from the command: two command lines that give the same remote command agree on
  all of them.
\<close>

theorem sshExec_embeds_flags:
  "(\<forall>args env. Exec ''ssh'' args env \<in> set (workerTrace (main fl arch w sig)) \<longrightarrow>
       (\<exists>p. snd (provision fl arch w) = Some p \<and> args = sshExec_args fl (vars p) w (publicIP p)))
   \<and> fst (sshExec fl g w ip) = [Exec ''ssh'' (sshExec_args fl g w ip) []]
   \<and> sshExec_args fl g w ip =
       [''-i'', privateKeyPath g w, ''ubuntu@'' @ ip, ''cd /tmp && ./bench'',
        ''-test.bench='' @ benchFlag fl, ''-test.count='' @ fmt_d (countFlag fl),
        ''-test.benchmem='' @ fmt_t (benchMem fl), ''-test.run='' @ run fl]
       @ (if 0 < cpuFlag fl then [''-test.cpu='' @ fmt_d (cpuFlag fl)] else [])
   \<and> (\<forall>fl'. sshExec_args fl' g w ip = sshExec_args fl g w ip \<longrightarrow>
         benchFlag fl' = benchFlag fl \<and> countFlag fl' = countFlag fl \<and> benchMem fl' = benchMem fl
         \<and> run fl' = run fl \<and> (0 < cpuFlag fl') = (0 < cpuFlag fl)
         \<and> (if 0 < cpuFlag fl then cpuFlag fl' = cpuFlag fl else True))"
proof (intro conjI allI impI)
  fix args env
  assume a: "Exec ''ssh'' args env \<in> set (workerTrace (main fl arch w sig))"
  then obtain p where p: "snd (provision fl arch w) = Some p" "Exec ''ssh'' args env \<in> set (worker fl w p)"
    using worker_of_run by blast
  from p(2) have "args = sshExec_args fl (vars p) w (publicIP p)" by (rule ssh_event_of_worker)
  with p(1) show "\<exists>p. snd (provision fl arch w) = Some p \<and> args = sshExec_args fl (vars p) w (publicIP p)"
    by blast
next
  show "fst (sshExec fl g w ip) = [Exec ''ssh'' (sshExec_args fl g w ip) []]" by (rule sshExec_trace)
next
  show "sshExec_args fl g w ip =
       [''-i'', privateKeyPath g w, ''ubuntu@'' @ ip, ''cd /tmp && ./bench'',
        ''-test.bench='' @ benchFlag fl, ''-test.count='' @ fmt_d (countFlag fl),
        ''-test.benchmem='' @ fmt_t (benchMem fl), ''-test.run='' @ run fl]
       @ (if 0 < cpuFlag fl then [''-test.cpu='' @ fmt_d (cpuFlag fl)] else [])"
    by (rule sshExec_args_explicit)
next
  fix fl'
  assume e: "sshExec_args fl' g w ip = sshExec_args fl g w ip"
  note d = sshExec_args_decode [OF e]
  from d show "benchFlag fl' = benchFlag fl" by blast
  from d show "countFlag fl' = countFlag fl" by blast
  from d show "benchMem fl' = benchMem fl" by blast
  from d show "run fl' = run fl" by blast
  from d show "(0 < cpuFlag fl') = (0 < cpuFlag fl)" by blast
  from d show "if 0 < cpuFlag fl then cpuFlag fl' = cpuFlag fl else True" by blast
qed

theorem sshExec_embeds_flags_witness:
  "sshExec_args fl1 g1 w0 ''1.2.3.4'' =
     [''-i'', ''/home/bob/.ssh/rbench-bob.pem'', ''ubuntu@1.2.3.4'', ''cd /tmp && ./bench'',
      ''-test.bench=BenchmarkDummy'', ''-test.count=10'', ''-test.benchmem=true'',
      ''-test.run=NONE'', ''-test.cpu=4'']
   \<and> sshExec_args fl0 g1 w0 ''1.2.3.4'' =
     [''-i'', ''/home/bob/.ssh/rbench-bob.pem'', ''ubuntu@1.2.3.4'', ''cd /tmp && ./bench'',
      ''-test.bench=.'', ''-test.count=5'', ''-test.benchmem=false'', ''-test.run=NONE'']
   \<and> Exec ''ssh'' (sshExec_args fl1 g1 w0 ''1.2.3.4'') [] \<in> set (workerTrace (main fl1 archX86 w0 NoSignal))"
proof -
  have d10: "fmt_d 10 = ''10''" and d5: "fmt_d 5 = ''5''" and d4: "fmt_d 4 = ''4''"
    by (simp_all add: fmt_d_def fmt_nat.simps digits_def)
  have k: "privateKeyPath g1 w0 = ''/home/bob/.ssh/rbench-bob.pem''"
    by (simp add: privateKeyPath_def g1_def w0_def)
  have a: "sshExec_args fl1 g1 w0 ''1.2.3.4'' =
     [''-i'', ''/home/bob/.ssh/rbench-bob.pem'', ''ubuntu@1.2.3.4'', ''cd /tmp && ./bench'',
      ''-test.bench=BenchmarkDummy'', ''-test.count=10'', ''-test.benchmem=true'',
      ''-test.run=NONE'', ''-test.cpu=4'']"
    using sshExec_embeds_flags [of fl1 archX86 w0 NoSignal g1 "''1.2.3.4''"]
    by (simp add: fl1_def d10 d4 k fmt_t_def)
  have b: "sshExec_args fl0 g1 w0 ''1.2.3.4'' =
     [''-i'', ''/home/bob/.ssh/rbench-bob.pem'', ''ubuntu@1.2.3.4'', ''cd /tmp && ./bench'',
      ''-test.bench=.'', ''-test.count=5'', ''-test.benchmem=false'', ''-test.run=NONE'']"
    using sshExec_embeds_flags [of fl0 archX86 w0 NoSignal g1 "''1.2.3.4''"]
    by (simp add: fl0_def d5 k fmt_t_def)
  have c: "Exec ''ssh'' (sshExec_args fl1 g1 w0 ''1.2.3.4'') [] \<in> set (workerTrace (main fl1 archX86 w0 NoSignal))"
    by code_simp
  from a b c show ?thesis by blast
qed

lemma has_prefix_iff: "has_prefix s sub \<longleftrightarrow> (\<exists>q. s = sub @ q)"
  by (induction s sub rule: has_prefix.induct) auto

lemma Contains_iff: "Contains s sub \<longleftrightarrow> (\<exists>p q. s = p @ sub @ q)"
proof (induction s)
  case Nil
  then show ?case by auto
next
  case (Cons a s)
  show ?case
  proof
    assume "Contains (a # s) sub"
    then consider "has_prefix (a # s) sub" | "Contains s sub" by auto
    then show "\<exists>p q. a # s = p @ sub @ q"
    proof cases
      case 1
      then obtain q where "a # s = sub @ q" by (auto simp: has_prefix_iff)
      then have "a # s = [] @ sub @ q" by simp
      then show ?thesis by blast
    next
      case 2
      then obtain p q where "s = p @ sub @ q" using Cons.IH by auto
      then have "a # s = (a # p) @ sub @ q" by simp
      then show ?thesis by blast
    qed
  next
    assume "\<exists>p q. a # s = p @ sub @ q"
    then obtain p q where pq: "a # s = p @ sub @ q" by blast
    show "Contains (a # s) sub"
    proof (cases p)
      case Nil
      with pq have "has_prefix (a # s) sub" by (auto simp: has_prefix_iff)
      then show ?thesis by simp
    next
      case (Cons b p')
      with pq have "s = p' @ sub @ q" by simp
      then have "Contains s sub" using Cons.IH by blast
      then show ?thesis by simp
    qed
  qed
qed

subsection \<open>Key pair creation\<close>

lemma initAWS_key_error:
  assumes "loadConfig w = None" and "getUser w = Inr name"
    and "createKeyPair w (''rbench-'' @ name) = Inl e"
  shows "snd (snd (initAWS g w)) = (if Contains e ''InvalidKeyPair.Duplicate'' then None else Some e)"
  using assms by (simp add: initAWS_def Let_def)

text \<open>
  C3. In a run that gets to \<^verbatim>\<open>CreateKeyPair\<close> (the configuration is loaded, the user is
  known) and in which that call fails: when the error message contains
  \<^verbatim>\<open>InvalidKeyPair.Duplicate\<close>, \<^verbatim>\<open>initAWS\<close> returns no error; otherwise it returns that very
  error.
\<close>

theorem initAWS_duplicate_key_not_fatal:
  assumes "loadConfig w = None" and "getUser w = Inr name"
    and "createKeyPair w (''rbench-'' @ name) = Inl e"
  shows "((\<exists>p q. e = p @ ''InvalidKeyPair.Duplicate'' @ q) \<longrightarrow> snd (snd (initAWS g w)) = None)
       \<and> (\<not> (\<exists>p q. e = p @ ''InvalidKeyPair.Duplicate'' @ q) \<longrightarrow> snd (snd (initAWS g w)) = Some e)"
  using initAWS_key_error [OF assms, of g] by (simp add: Contains_iff)

theorem initAWS_duplicate_key_not_fatal_witness:
  "snd (snd (initAWS globals0 w_dup)) = None
   \<and> snd (snd (initAWS globals0 w_denied)) = Some ''api error UnauthorizedOperation''"
proof -
  have c1: "Contains ''api error InvalidKeyPair.Duplicate: The keypair already exists'' ''InvalidKeyPair.Duplicate''"
    by code_simp
  have c2: "\<not> Contains ''api error UnauthorizedOperation'' ''InvalidKeyPair.Duplicate''"
    by code_simp
  have l1: "loadConfig w_dup = None" and u1: "getUser w_dup = Inr ''bob''"
    and k1: "createKeyPair w_dup (''rbench-'' @ ''bob'')
               = Inl ''api error InvalidKeyPair.Duplicate: The keypair already exists''"
    by (simp_all add: w_dup_def w0_def)
  have l2: "loadConfig w_denied = None" and u2: "getUser w_denied = Inr ''bob''"
    and k2: "createKeyPair w_denied (''rbench-'' @ ''bob'') = Inl ''api error UnauthorizedOperation''"
    by (simp_all add: w_denied_def w0_def)
  from initAWS_duplicate_key_not_fatal [OF l1 u1 k1, of globals0] c1 [unfolded Contains_iff]
  have a: "snd (snd (initAWS globals0 w_dup)) = None" by blast
  from initAWS_duplicate_key_not_fatal [OF l2 u2 k2, of globals0] c2 [unfolded Contains_iff]
  have b: "snd (snd (initAWS globals0 w_denied)) = Some ''api error UnauthorizedOperation''"
    by blast
  from a b show ?thesis by blast
qed

subsection \<open>Provisioning\<close>

lemma terminateInstance_calls:
  "filter is_terminate (fst (terminateInstance w iid)) = [TerminateInstances iid]"
  by (simp add: terminateInstance_def is_terminate_def Let_def split: option.splits)

lemma terminateInstance_shape:
  "\<exists>t. fst (terminateInstance w iid)
         = Print (''terminating instance '' @ iid @ [nl]) # TerminateInstances iid # t
       \<and> filter is_terminate t = [] \<and> filter is_run_instances t = [] \<and> filter is_dial t = []"
  by (simp add: terminateInstance_def is_terminate_def is_run_instances_def is_dial_def Let_def
      split: option.splits)

lemma terminateInstance_other:
  "filter is_run_instances (fst (terminateInstance w iid)) = []"
  "filter is_dial (fst (terminateInstance w iid)) = []"
  "filter (is_cmd c) (fst (terminateInstance w iid)) = []"
  by (simp_all add: terminateInstance_def is_run_instances_def is_dial_def is_cmd_def Let_def
      split: option.splits)

lemma sshProbe_result: "snd (sshProbe w addr i) \<longleftrightarrow> (\<exists>j. i \<le> j \<and> j < 5 \<and> dial w j addr)"
proof (induction w addr i rule: sshProbe.induct)
  case (1 w addr i)
  show ?case
  proof (cases "i < 5")
    case False
    then show ?thesis by (subst sshProbe.simps) auto
  next
    case True
    show ?thesis
    proof (cases "dial w i addr")
      case d: True
      with True have "snd (sshProbe w addr i)" by (subst sshProbe.simps) simp
      moreover from True d have "\<exists>j. i \<le> j \<and> j < 5 \<and> dial w j addr" by blast
      ultimately show ?thesis by blast
    next
      case d: False
      with True have "snd (sshProbe w addr i) = snd (sshProbe w addr (Suc i))"
        by (subst sshProbe.simps) (simp split: prod.splits)
      also have "\<dots> \<longleftrightarrow> (\<exists>j. Suc i \<le> j \<and> j < 5 \<and> dial w j addr)"
        using "1.IH" [OF True d] .
      also have "\<dots> \<longleftrightarrow> (\<exists>j. i \<le> j \<and> j < 5 \<and> dial w j addr)"
        using d by (metis Suc_leD Suc_leI le_neq_implies_less)
      finally show ?thesis .
    qed
  qed
qed

lemma sshProbe_other:
  "filter is_terminate (fst (sshProbe w addr i)) = []
   \<and> filter is_run_instances (fst (sshProbe w addr i)) = []
   \<and> filter (is_cmd c) (fst (sshProbe w addr i)) = []"
proof (induction w addr i rule: sshProbe.induct)
  case (1 w addr i)
  show ?case
  proof (cases "i < 5 \<and> \<not> dial w i addr")
    case False
    then show ?thesis
      by (subst (1 2 3) sshProbe.simps) (auto simp: is_terminate_def is_run_instances_def is_cmd_def)
  next
    case True
    then have "fst (sshProbe w addr i) = Dial addr 30 # Sleep 5 # fst (sshProbe w addr (Suc i))"
      by (subst sshProbe.simps) (simp split: prod.splits)
    with "1.IH" True show ?thesis
      by (simp add: is_terminate_def is_run_instances_def is_cmd_def)
  qed
qed

lemma sshProbe_dials: "length (filter is_dial (fst (sshProbe w addr i))) \<le> 5 - i"
proof (induction w addr i rule: sshProbe.induct)
  case (1 w addr i)
  show ?case
  proof (cases "i < 5")
    case False
    then show ?thesis by (subst sshProbe.simps) simp
  next
    case True
    show ?thesis
    proof (cases "dial w i addr")
      case d: True
      with True show ?thesis by (subst sshProbe.simps) (simp add: is_dial_def)
    next
      case d: False
      with True have "fst (sshProbe w addr i) = Dial addr 30 # Sleep 5 # fst (sshProbe w addr (Suc i))"
        by (subst sshProbe.simps) (simp split: prod.splits)
      with "1.IH" [OF True d] True show ?thesis by (simp add: is_dial_def)
    qed
  qed
qed

lemma startInstance_run_error:
  assumes "runInstances w (instance_request arch fl g w k) = Inl e"
  shows "startInstance arch fl g w k
         = ([RunInstances (instance_request arch fl g w k)], Inl (''unable to run instance, '' @ e))"
  using assms by (simp add: startInstance_def Let_def)

lemma startInstance_count_error:
  assumes "runInstances w (instance_request arch fl g w k) = Inr insts" and "length insts \<noteq> 1"
  shows "startInstance arch fl g w k
         = ([RunInstances (instance_request arch fl g w k)],
            Inl (''expected 1 instance, got '' @ fmt_d (int (length insts))))"
  using assms by (simp add: startInstance_def Let_def)

lemma startInstance_wait_error:
  assumes "runInstances w (instance_request arch fl g w k) = Inr [iid]" and "waitRunning w iid = Inl e"
  shows "startInstance arch fl g w k
         = ([RunInstances (instance_request arch fl g w k), WaitRunning iid]
              @ fst (terminateInstance w iid),
            Inl (''error waiting for instance to be running, '' @ e))"
  using assms by (simp add: startInstance_def Let_def)

lemma startInstance_connected:
  assumes "runInstances w (instance_request arch fl g w k) = Inr [iid]" and "waitRunning w iid = Inr ip"
    and "snd (sshProbe w (ip @ '':22'') 0)"
  shows "startInstance arch fl g w k
         = ([RunInstances (instance_request arch fl g w k), WaitRunning iid]
              @ fst (sshProbe w (ip @ '':22'') 0),
            Inr (ip, iid))"
  using assms by (cases "sshProbe w (ip @ '':22'') 0") (simp add: startInstance_def Let_def)

lemma startInstance_unreachable:
  assumes "runInstances w (instance_request arch fl g w k) = Inr [iid]" and "waitRunning w iid = Inr ip"
    and "\<not> snd (sshProbe w (ip @ '':22'') 0)"
  shows "startInstance arch fl g w k
         = ([RunInstances (instance_request arch fl g w k), WaitRunning iid]
              @ fst (sshProbe w (ip @ '':22'') 0) @ fst (terminateInstance w iid),
            Inl ''unable to connect to instance'')"
  using assms by (cases "sshProbe w (ip @ '':22'') 0") (simp add: startInstance_def Let_def)

lemma startInstance_cases:
  obtains (run_error) e where "runInstances w (instance_request arch fl g w k) = Inl e"
  | (count_error) insts where "runInstances w (instance_request arch fl g w k) = Inr insts"
      and "length insts \<noteq> 1"
  | (wait_error) iid e where "runInstances w (instance_request arch fl g w k) = Inr [iid]"
      and "waitRunning w iid = Inl e"
  | (connected) iid ip where "runInstances w (instance_request arch fl g w k) = Inr [iid]"
      and "waitRunning w iid = Inr ip" and "snd (sshProbe w (ip @ '':22'') 0)"
  | (unreachable) iid ip where "runInstances w (instance_request arch fl g w k) = Inr [iid]"
      and "waitRunning w iid = Inr ip" and "\<not> snd (sshProbe w (ip @ '':22'') 0)"
proof (cases "runInstances w (instance_request arch fl g w k)")
  case (Inl e)
  then show ?thesis by (rule run_error)
next
  case (Inr insts)
  show ?thesis
  proof (cases "length insts = 1")
    case False
    with Inr show ?thesis by (rule count_error)
  next
    case True
    then obtain iid where i: "insts = [iid]" by (cases insts) auto
    show ?thesis
    proof (cases "waitRunning w iid")
      case (Inl e)
      with Inr i show ?thesis by (auto intro: wait_error)
    next
      case r: (Inr ip)
      with Inr i show ?thesis by (cases "snd (sshProbe w (ip @ '':22'') 0)") (auto intro: connected unreachable)
    qed
  qed
qed

lemma startInstance_run_calls:
  "filter is_run_instances (fst (startInstance arch fl g w k))
   = [RunInstances (instance_request arch fl g w k)]"
  by (cases rule: startInstance_cases [of w arch fl g k])
    (simp_all add: startInstance_run_error startInstance_count_error startInstance_wait_error
      startInstance_connected startInstance_unreachable is_run_instances_def
      terminateInstance_other sshProbe_other)

lemma startInstance_no_cmd: "filter (is_cmd c) (fst (startInstance arch fl g w k)) = []"
  by (cases rule: startInstance_cases [of w arch fl g k])
    (simp_all add: startInstance_run_error startInstance_count_error startInstance_wait_error
      startInstance_connected startInstance_unreachable is_cmd_def
      terminateInstance_other sshProbe_other)

lemma startInstance_ok_no_terminate:
  assumes "snd (startInstance arch fl g w k) = Inr r"
  shows "filter is_terminate (fst (startInstance arch fl g w k)) = []"
  using assms
  by (cases rule: startInstance_cases [of w arch fl g k])
    (simp_all add: startInstance_run_error startInstance_count_error startInstance_wait_error
      startInstance_connected startInstance_unreachable is_terminate_def sshProbe_other)

lemma startInstance_dials: "length (filter is_dial (fst (startInstance arch fl g w k))) \<le> 5"
proof (cases rule: startInstance_cases [of w arch fl g k])
  case (connected iid ip)
  then show ?thesis
    using sshProbe_dials [of w "ip @ '':22''" 0]
    by (simp add: startInstance_connected is_dial_def)
next
  case (unreachable iid ip)
  then show ?thesis
    using sshProbe_dials [of w "ip @ '':22''" 0]
    by (simp add: startInstance_unreachable is_dial_def terminateInstance_other)
qed (simp_all add: startInstance_run_error startInstance_count_error startInstance_wait_error
      is_dial_def terminateInstance_other)

subsection \<open>The local build\<close>

lemma randString_shape: "length (randString w k n) = n \<and> set (randString w k n) \<subseteq> set letters"
proof -
  have "letters ! (m mod length letters) \<in> set letters" for m
    by (rule nth_mem) (simp add: letters_def)
  then show ?thesis by (auto simp: randString_def)
qed

lemma compile_trace:
  "\<exists>rest. fst (compileBenchmarkBinary w k)
           = Exec ''go'' [''test'', ''-c'', ''-o'', ''/tmp/bench-'' @ randString w k 7] (compile_env w) # rest
         \<and> filter (is_cmd c) rest = [] \<and> filter is_terminate rest = []
         \<and> filter is_run_instances rest = []"
  by (simp add: compileBenchmarkBinary_def Let_def is_cmd_def is_terminate_def is_run_instances_def
      split: option.splits)

lemma compile_ok:
  assumes "snd (compileBenchmarkBinary w k) = Inr name"
  shows "name = ''/tmp/bench-'' @ randString w k 7 \<and> cmd_err (goTest w name) = None
         \<and> statFile w name = None"
  using assms by (auto simp: compileBenchmarkBinary_def Let_def split: option.splits)

lemma git_trace:
  "filter is_terminate (fst (gitCommitID w)) = []
   \<and> filter is_run_instances (fst (gitCommitID w)) = []
   \<and> (c \<noteq> ''git'' \<longrightarrow> filter (is_cmd c) (fst (gitCommitID w)) = [])"
  by (simp add: gitCommitID_def Let_def is_cmd_def is_terminate_def is_run_instances_def
      split: option.splits sum.splits)

lemma initAWS_trace:
  "filter is_terminate (fst (initAWS g w)) = []
   \<and> filter is_run_instances (fst (initAWS g w)) = []
   \<and> filter (is_cmd c) (fst (initAWS g w)) = []"
  by (simp add: initAWS_def Let_def is_cmd_def is_terminate_def is_run_instances_def
      split: option.splits sum.splits)

subsection \<open>The run up to the signal handler\<close>

lemma provision_git_error:
  assumes "snd (gitCommitID w) = Inl e"
  shows "provision fl arch w = (fst (gitCommitID w) @ [print_error e], None)"
  using assms by (cases "gitCommitID w") (simp add: provision_def)

lemma provision_build_error:
  assumes "snd (gitCommitID w) = Inr cid" and "snd (compileBenchmarkBinary w 0) = Inl e"
  shows "provision fl arch w
         = (fst (gitCommitID w) @ fst (compileBenchmarkBinary w 0) @ [print_error e], None)"
  using assms
  by (cases "gitCommitID w"; cases "compileBenchmarkBinary w 0") (simp add: provision_def)

lemma provision_aws_error:
  assumes "snd (gitCommitID w) = Inr cid" and "snd (compileBenchmarkBinary w 0) = Inr bin"
    and "snd (snd (initAWS globals0 w)) = Some e"
  shows "provision fl arch w
         = (fst (gitCommitID w) @ fst (compileBenchmarkBinary w 0) @ fst (initAWS globals0 w)
              @ [print_error e], None)"
  using assms
  by (cases "gitCommitID w"; cases "compileBenchmarkBinary w 0"; cases "initAWS globals0 w")
    (simp add: provision_def)

lemma provision_start_error:
  assumes "snd (gitCommitID w) = Inr cid" and "snd (compileBenchmarkBinary w 0) = Inr bin"
    and "snd (snd (initAWS globals0 w)) = None"
    and "snd (startInstance arch fl (fst (snd (initAWS globals0 w))) w 1) = Inl e"
  shows "provision fl arch w
         = (fst (gitCommitID w) @ fst (compileBenchmarkBinary w 0) @ fst (initAWS globals0 w)
              @ [Print (cr # ''starting '' @ instanceType fl @ '' instance...'' @ clearStr)]
              @ fst (startInstance arch fl (fst (snd (initAWS globals0 w))) w 1)
              @ [print_error e], None)"
  using assms
  by (cases "gitCommitID w"; cases "compileBenchmarkBinary w 0"; cases "initAWS globals0 w";
      cases "startInstance arch fl (fst (snd (initAWS globals0 w))) w 1")
    (simp add: provision_def Let_def)

lemma provision_ok:
  assumes "snd (gitCommitID w) = Inr cid" and "snd (compileBenchmarkBinary w 0) = Inr bin"
    and "snd (snd (initAWS globals0 w)) = None"
    and "snd (startInstance arch fl (fst (snd (initAWS globals0 w))) w 1) = Inr (ip, iid)"
  shows "provision fl arch w
         = (fst (gitCommitID w) @ fst (compileBenchmarkBinary w 0) @ fst (initAWS globals0 w)
              @ [Print (cr # ''starting '' @ instanceType fl @ '' instance...'' @ clearStr)]
              @ fst (startInstance arch fl (fst (snd (initAWS globals0 w))) w 1),
            Some \<lparr>commitID = cid, benchFileName = bin, vars = fst (snd (initAWS globals0 w)),
                  publicIP = ip, instanceID = iid\<rparr>)"
  using assms
  by (cases "gitCommitID w"; cases "compileBenchmarkBinary w 0"; cases "initAWS globals0 w";
      cases "startInstance arch fl (fst (snd (initAWS globals0 w))) w 1")
    (simp add: provision_def Let_def)

lemma provision_cases:
  obtains (git_error) e where "snd (gitCommitID w) = Inl e"
  | (build_error) cid e where "snd (gitCommitID w) = Inr cid"
      and "snd (compileBenchmarkBinary w 0) = Inl e"
  | (aws_error) cid bin e where "snd (gitCommitID w) = Inr cid"
      and "snd (compileBenchmarkBinary w 0) = Inr bin"
      and "snd (snd (initAWS globals0 w)) = Some e"
  | (start_error) cid bin e where "snd (gitCommitID w) = Inr cid"
      and "snd (compileBenchmarkBinary w 0) = Inr bin"
      and "snd (snd (initAWS globals0 w)) = None"
      and "snd (startInstance arch fl (fst (snd (initAWS globals0 w))) w 1) = Inl e"
  | (ok) cid bin ip iid where "snd (gitCommitID w) = Inr cid"
      and "snd (compileBenchmarkBinary w 0) = Inr bin"
      and "snd (snd (initAWS globals0 w)) = None"
      and "snd (startInstance arch fl (fst (snd (initAWS globals0 w))) w 1) = Inr (ip, iid)"
proof (cases "snd (gitCommitID w)")
  case (Inl e)
  then show ?thesis by (rule git_error)
next
  case g: (Inr cid)
  show ?thesis
  proof (cases "snd (compileBenchmarkBinary w 0)")
    case (Inl e)
    with g show ?thesis by (rule build_error)
  next
    case c: (Inr bin)
    show ?thesis
    proof (cases "snd (snd (initAWS globals0 w))")
      case (Some e)
      with g c show ?thesis by (rule aws_error)
    next
      case a: None
      show ?thesis
      proof (cases "snd (startInstance arch fl (fst (snd (initAWS globals0 w))) w 1)")
        case (Inl e)
        with g c a show ?thesis by (rule start_error)
      next
        case (Inr r)
        then have "snd (startInstance arch fl (fst (snd (initAWS globals0 w))) w 1) = Inr (fst r, snd r)"
          by simp
        with g c a show ?thesis by (rule ok)
      qed
    qed
  qed
qed

lemma print_error_other:
  "\<not> is_terminate (print_error e)" "\<not> is_run_instances (print_error e)" "\<not> is_cmd c (print_error e)"
  by (simp_all add: print_error_def is_terminate_def is_run_instances_def is_cmd_def)

lemma provision_go_calls:
  "filter (is_cmd ''go'') (fst (provision fl arch w)) = []
   \<or> filter (is_cmd ''go'') (fst (provision fl arch w))
       = [Exec ''go'' [''test'', ''-c'', ''-o'', ''/tmp/bench-'' @ randString w 0 7] (compile_env w)]"
proof -
  obtain rest where c: "fst (compileBenchmarkBinary w 0)
      = Exec ''go'' [''test'', ''-c'', ''-o'', ''/tmp/bench-'' @ randString w 0 7] (compile_env w) # rest"
    "filter (is_cmd ''go'') rest = []"
    using compile_trace [of w 0 "''go''"] by blast
  have g: "filter (is_cmd ''go'') (fst (gitCommitID w)) = []"
    using git_trace [of w "''go''"] by simp
  note facts = c g initAWS_trace startInstance_no_cmd print_error_def is_cmd_def
  show ?thesis
  proof (cases rule: provision_cases [where w = w and arch = arch and fl = fl])
    case (git_error e)
    show ?thesis by (simp add: provision_git_error [OF git_error] facts)
  next
    case (build_error cid e)
    show ?thesis by (simp add: provision_build_error [OF build_error] facts)
  next
    case (aws_error cid bin e)
    show ?thesis by (simp add: provision_aws_error [OF aws_error] facts)
  next
    case (start_error cid bin e)
    show ?thesis by (simp add: provision_start_error [OF start_error] facts)
  next
    case (ok cid bin ip iid)
    show ?thesis by (simp add: provision_ok [OF ok] facts)
  qed
qed

lemma provision_run_calls:
  "length (filter is_run_instances (fst (provision fl arch w))) \<le> 1"
proof -
  obtain rest where c: "fst (compileBenchmarkBinary w 0)
      = Exec ''go'' [''test'', ''-c'', ''-o'', ''/tmp/bench-'' @ randString w 0 7] (compile_env w) # rest"
    "filter is_run_instances rest = []"
    using compile_trace [of w 0 "''go''"] by blast
  note facts = c git_trace initAWS_trace startInstance_run_calls print_error_def is_run_instances_def
  show ?thesis
  proof (cases rule: provision_cases [where w = w and arch = arch and fl = fl])
    case (git_error e)
    show ?thesis by (simp add: provision_git_error [OF git_error] facts)
  next
    case (build_error cid e)
    show ?thesis by (simp add: provision_build_error [OF build_error] facts)
  next
    case (aws_error cid bin e)
    show ?thesis by (simp add: provision_aws_error [OF aws_error] facts)
  next
    case (start_error cid bin e)
    show ?thesis by (simp add: provision_start_error [OF start_error] facts)
  next
    case (ok cid bin ip iid)
    show ?thesis by (simp add: provision_ok [OF ok] facts)
  qed
qed

lemma provision_some:
  assumes "provision fl arch w = (pre, Some p)"
  shows "filter is_terminate pre = []
       \<and> snd (startInstance arch fl (vars p) w 1) = Inr (publicIP p, instanceID p)
       \<and> snd (compileBenchmarkBinary w 0) = Inr (benchFileName p)
       \<and> vars p = fst (snd (initAWS globals0 w))"
proof -
  obtain rest where c: "fst (compileBenchmarkBinary w 0)
      = Exec ''go'' [''test'', ''-c'', ''-o'', ''/tmp/bench-'' @ randString w 0 7] (compile_env w) # rest"
    "filter is_terminate rest = []"
    using compile_trace [of w 0 "''go''"] by blast
  note facts = c git_trace initAWS_trace print_error_def is_terminate_def
  show ?thesis
  proof (cases rule: provision_cases [where w = w and arch = arch and fl = fl])
    case (git_error e)
    from assms show ?thesis by (simp add: provision_git_error [OF git_error])
  next
    case (build_error cid e)
    from assms show ?thesis by (simp add: provision_build_error [OF build_error])
  next
    case (aws_error cid bin e)
    from assms show ?thesis by (simp add: provision_aws_error [OF aws_error])
  next
    case (start_error cid bin e)
    from assms show ?thesis by (simp add: provision_start_error [OF start_error])
  next
    case (ok cid bin ip iid)
    from assms ok startInstance_ok_no_terminate [OF ok(4)]
    show ?thesis by (auto simp: provision_ok [OF ok] facts)
  qed
qed

lemma filter_take_length: "length (filter P (take k xs)) \<le> length (filter P xs)"
proof -
  have "length (filter P xs) = length (filter P (take k xs)) + length (filter P (drop k xs))"
    by (metis append_take_drop_id filter_append length_append)
  then show ?thesis by simp
qed

lemma worker_other:
  "filter is_terminate (worker fl w p) = [] \<and> filter is_run_instances (worker fl w p) = []
   \<and> filter (is_cmd ''go'') (worker fl w p) = []"
proof -
  obtain t1 r1 where r1: "scp (vars p) w (benchFileName p) (publicIP p) = (t1, r1)" by force
  obtain t3 r3 where r3: "sshExec fl (vars p) w (publicIP p) = (t3, r3)" by force
  from scp_trace [of "vars p" w "benchFileName p" "publicIP p"] r1
  have t1: "t1 = [Exec ''scp'' (scp_args (vars p) w (benchFileName p) (publicIP p)) []]" by simp
  from sshExec_trace [of fl "vars p" w "publicIP p"] r3
  have t3: "t3 = [Exec ''ssh'' (sshExec_args fl (vars p) w (publicIP p)) []]" by simp
  show ?thesis
    unfolding worker_def Let_def r1 r3 t1 t3
    by (cases r1; cases r3)
      (simp_all add: print_error_def is_terminate_def is_run_instances_def is_cmd_def)
qed

subsection \<open>Whole runs\<close>

lemma main_killed:
  "main fl arch w (BeforeNotify k)
   = \<lparr>mainTrace = take k (fst (provision fl arch w)) @ [Killed], workerTrace = []\<rparr>"
  by (cases "provision fl arch w") (simp add: main_def)

lemma main_failed:
  assumes "provision fl arch w = (pre, None)"
  shows "main fl arch w NoSignal = \<lparr>mainTrace = pre @ [Return], workerTrace = []\<rparr>"
    and "main fl arch w (WhileWaiting n) = \<lparr>mainTrace = pre @ [Return], workerTrace = []\<rparr>"
  using assms by (simp_all add: main_def)

lemma main_completed:
  assumes "provision fl arch w = (pre, Some p)"
  shows "main fl arch w NoSignal
         = \<lparr>mainTrace = pre @ [Notify] @ fst (terminateInstance w (instanceID p)) @ [Exit 0],
            workerTrace = worker fl w p\<rparr>"
  using assms by (simp add: main_def)

lemma main_interrupted:
  assumes "provision fl arch w = (pre, Some p)"
  shows "main fl arch w (WhileWaiting n)
         = \<lparr>mainTrace = pre @ [Notify] @ fst (terminateInstance w (instanceID p)) @ [Exit 0],
            workerTrace = take n (worker fl w p)\<rparr>"
  using assms by (simp add: main_def)

lemma main_filter_bound:
  assumes "\<not> P Killed" and "\<not> P Return" and "\<not> P Notify" and "\<not> P (Exit 0)"
  shows "length (filter P (mainTrace (main fl arch w sig) @ workerTrace (main fl arch w sig)))
         \<le> length (filter P (fst (provision fl arch w)))
           + (case snd (provision fl arch w) of None \<Rightarrow> 0
              | Some p \<Rightarrow> length (filter P (fst (terminateInstance w (instanceID p))))
                          + length (filter P (worker fl w p)))"
proof -
  obtain pre r where pr: "provision fl arch w = (pre, r)" by force
  show ?thesis
  proof (cases sig)
    case (BeforeNotify k)
    have "length (filter P (take k pre)) \<le> length (filter P pre)" by (rule filter_take_length)
    with BeforeNotify pr assms show ?thesis by (simp add: main_killed)
  next
    case NoSignal
    with pr assms show ?thesis by (cases r) (simp_all add: main_failed main_completed)
  next
    case (WhileWaiting n)
    show ?thesis
    proof (cases r)
      case None
      with WhileWaiting pr assms show ?thesis by (simp add: main_failed)
    next
      case (Some p)
      have "length (filter P (take n (worker fl w p))) \<le> length (filter P (worker fl w p))"
        by (rule filter_take_length)
      with Some WhileWaiting pr assms show ?thesis by (simp add: main_interrupted)
    qed
  qed
qed

lemma main_go_event:
  assumes "ev \<in> set (mainTrace (main fl arch w sig) @ workerTrace (main fl arch w sig))"
    and "is_cmd ''go'' ev"
  shows "ev \<in> set (filter (is_cmd ''go'') (fst (provision fl arch w)))"
proof -
  obtain pre r where pr: "provision fl arch w = (pre, r)" by force
  have t: "ev \<notin> set (fst (terminateInstance w i))" for i
    using terminateInstance_other(3) [of "''go''" w i] assms(2) by (simp add: filter_empty_conv) blast
  have k: "ev \<notin> set (worker fl w p)" for p
    using worker_other [of fl w p] assms(2) by (simp add: filter_empty_conv) blast
  have o: "ev \<noteq> Killed" "ev \<noteq> Return" "ev \<noteq> Notify" "ev \<noteq> Exit 0"
    using assms(2) by (auto simp: is_cmd_def)
  have "ev \<in> set pre"
  proof (cases sig)
    case (BeforeNotify n)
    with assms(1) pr o show ?thesis by (auto simp: main_killed dest: in_set_takeD)
  next
    case NoSignal
    with assms(1) pr o t k show ?thesis by (cases r) (auto simp: main_failed main_completed)
  next
    case (WhileWaiting n)
    with assms(1) pr o t k show ?thesis
      by (cases r) (auto simp: main_failed main_interrupted dest: in_set_takeD)
  qed
  with pr assms(2) show ?thesis by simp
qed

text \<open>
  C10. \<^verbatim>\<open>compileBenchmarkBinary\<close> runs \<^verbatim>\<open>go test -c -o\<close> once, with \<^verbatim>\<open>GOOS=linux\<close> and
  \<^verbatim>\<open>GOARCH=amd64\<close> appended to the environment; when it succeeds, the name it returns is
  \<^verbatim>\<open>/tmp/bench-\<close> followed by seven lower-case letters, and \<^verbatim>\<open>os.Stat\<close> has found that file.
  In a whole run, whatever the flags (the instance type among them) and the architecture,
  every \<^verbatim>\<open>go\<close> command carries that environment.
\<close>

theorem compile_targets_linux_amd64:
  "(\<exists>rest. fst (compileBenchmarkBinary w k)
       = Exec ''go'' [''test'', ''-c'', ''-o'', ''/tmp/bench-'' @ randString w k 7]
           (environ w @ [''GOOS=linux'', ''GOARCH=amd64'']) # rest
       \<and> filter (is_cmd ''go'') rest = [])
   \<and> (\<forall>name. snd (compileBenchmarkBinary w k) = Inr name \<longrightarrow>
         (\<exists>s. name = ''/tmp/bench-'' @ s \<and> length s = 7
              \<and> set s \<subseteq> set ''abcdefghijklmnopqrstuvwxyz'')
         \<and> statFile w name = None)
   \<and> (\<forall>fl arch sig ev.
         ev \<in> set (mainTrace (main fl arch w sig) @ workerTrace (main fl arch w sig))
         \<and> is_cmd ''go'' ev \<longrightarrow>
         (\<exists>args. ev = Exec ''go'' args (environ w @ [''GOOS=linux'', ''GOARCH=amd64''])))"
proof (intro conjI allI impI)
  show "\<exists>rest. fst (compileBenchmarkBinary w k)
       = Exec ''go'' [''test'', ''-c'', ''-o'', ''/tmp/bench-'' @ randString w k 7]
           (environ w @ [''GOOS=linux'', ''GOARCH=amd64'']) # rest
       \<and> filter (is_cmd ''go'') rest = []"
    using compile_trace [of w k "''go''"] by (auto simp: compile_env_def)
next
  fix name
  assume ok: "snd (compileBenchmarkBinary w k) = Inr name"
  from compile_ok [OF ok] have n: "name = ''/tmp/bench-'' @ randString w k 7" by blast
  have "length (randString w k 7) = 7 \<and> set (randString w k 7) \<subseteq> set letters"
    by (rule randString_shape)
  then have "length (randString w k 7) = 7
       \<and> set (randString w k 7) \<subseteq> set ''abcdefghijklmnopqrstuvwxyz''"
    by (simp only: letters_def)
  with n show "\<exists>s. name = ''/tmp/bench-'' @ s \<and> length s = 7
              \<and> set s \<subseteq> set ''abcdefghijklmnopqrstuvwxyz''"
    by blast
  from compile_ok [OF ok] show "statFile w name = None" by blast
next
  fix fl arch sig ev
  assume a: "ev \<in> set (mainTrace (main fl arch w sig) @ workerTrace (main fl arch w sig))
         \<and> is_cmd ''go'' ev"
  then have m: "ev \<in> set (filter (is_cmd ''go'') (fst (provision fl arch w)))"
    using main_go_event by blast
  from provision_go_calls [of fl arch w]
  have "set (filter (is_cmd ''go'') (fst (provision fl arch w)))
        \<subseteq> {Exec ''go'' [''test'', ''-c'', ''-o'', ''/tmp/bench-'' @ randString w 0 7] (compile_env w)}"
    by (elim disjE) (simp_all only: list.set subset_insertI subset_refl)
  with m have "ev = Exec ''go'' [''test'', ''-c'', ''-o'', ''/tmp/bench-'' @ randString w 0 7] (compile_env w)"
    by blast
  then show "\<exists>args. ev = Exec ''go'' args (environ w @ [''GOOS=linux'', ''GOARCH=amd64''])"
    by (simp add: compile_env_def)
qed

theorem compile_targets_linux_amd64_witness:
  "snd (compileBenchmarkBinary w0 0) = Inr ''/tmp/bench-abcdefg''
   \<and> statFile w0 ''/tmp/bench-abcdefg'' = None
   \<and> Exec ''go'' [''test'', ''-c'', ''-o'', ''/tmp/bench-abcdefg'']
        [''PATH=/usr/bin'', ''GOOS=linux'', ''GOARCH=amd64'']
       \<in> set (mainTrace (main fl1 archArm w0 NoSignal) @ workerTrace (main fl1 archArm w0 NoSignal))"
proof -
  have r: "snd (compileBenchmarkBinary w0 0) = Inr ''/tmp/bench-abcdefg''" by code_simp
  have m: "Exec ''go'' [''test'', ''-c'', ''-o'', ''/tmp/bench-abcdefg'']
        [''PATH=/usr/bin'', ''GOOS=linux'', ''GOARCH=amd64'']
       \<in> set (mainTrace (main fl1 archArm w0 NoSignal) @ workerTrace (main fl1 archArm w0 NoSignal))"
    by code_simp
  from compile_targets_linux_amd64 [of w0 0] r have "statFile w0 ''/tmp/bench-abcdefg'' = None"
    by blast
  with r m show ?thesis by blast
qed

subsection \<open>The probe loop, event by event\<close>

lemma sshProbe_all_fail:
  assumes "\<forall>j. i \<le> j \<and> j < 5 \<longrightarrow> \<not> dial w j addr"
  shows "sshProbe w addr i = (concat (replicate (5 - i) [Dial addr 30, Sleep 5]), False)"
  using assms
proof (induction w addr i rule: sshProbe.induct)
  case (1 w addr i)
  show ?case
  proof (cases "i < 5")
    case False
    then show ?thesis by (subst sshProbe.simps) simp
  next
    case True
    with "1.prems" have d: "\<not> dial w i addr" by simp
    from "1.prems" have "\<forall>j. Suc i \<le> j \<and> j < 5 \<longrightarrow> \<not> dial w j addr" by simp
    from "1.IH" [OF True d this]
    have ih: "sshProbe w addr (Suc i) = (concat (replicate (5 - Suc i) [Dial addr 30, Sleep 5]), False)" .
    from True have r: "5 - i = Suc (5 - Suc i)" by simp
    from True d ih show ?thesis by (subst sshProbe.simps) (simp add: r)
  qed
qed

lemma sshProbe_first_success:
  assumes "i \<le> m" and "m < 5" and "dial w m addr"
    and "\<forall>j. i \<le> j \<and> j < m \<longrightarrow> \<not> dial w j addr"
  shows "sshProbe w addr i
         = (concat (replicate (m - i) [Dial addr 30, Sleep 5]) @ [Dial addr 30, ConnClose, Sleep 5], True)"
  using assms
proof (induction w addr i rule: sshProbe.induct)
  case (1 w addr i)
  from "1.prems" have lt: "i < 5" by simp
  show ?case
  proof (cases "i = m")
    case True
    with "1.prems" lt show ?thesis by (subst sshProbe.simps) simp
  next
    case False
    with "1.prems" have im: "i < m" by simp
    with "1.prems" have d: "\<not> dial w i addr" by simp
    from im have s: "Suc i \<le> m" by simp
    from "1.prems" have "\<forall>j. Suc i \<le> j \<and> j < m \<longrightarrow> \<not> dial w j addr" by simp
    from "1.IH" [OF lt d s "1.prems"(2) "1.prems"(3) this]
    have ih: "sshProbe w addr (Suc i)
        = (concat (replicate (m - Suc i) [Dial addr 30, Sleep 5]) @ [Dial addr 30, ConnClose, Sleep 5], True)" .
    from im have r: "m - i = Suc (m - Suc i)" by simp
    from lt d ih show ?thesis by (subst sshProbe.simps) (simp add: r)
  qed
qed

lemma worker_needs_instance:
  assumes "ev \<in> set (workerTrace (main fl arch w sig))"
  shows "\<exists>p. snd (provision fl arch w) = Some p
           \<and> snd (startInstance arch fl (vars p) w 1) = Inr (publicIP p, instanceID p)"
proof -
  from worker_of_run [OF assms] obtain p where p: "snd (provision fl arch w) = Some p" by blast
  then have "provision fl arch w = (fst (provision fl arch w), Some p)" by (simp add: prod_eq_iff)
  from provision_some [OF this] p show ?thesis by blast
qed

text \<open>
  C4, as amended. Once the instance is running, \<^verbatim>\<open>startInstance\<close> probes port 22 of its
  public address at most five times, each time with a dial timeout of 30 seconds and
  followed by a sleep of 5 seconds. It succeeds exactly when one of the attempts 0 to 4
  connects, and stops at the first that does. When none connects it calls
  \<^verbatim>\<open>terminateInstance\<close> for the instance and returns the error
  \<^verbatim>\<open>unable to connect to instance\<close>. The goroutine, and with it the transfer step, runs only
  in a run whose \<^verbatim>\<open>startInstance\<close> has succeeded.
\<close>

theorem startInstance_probes_five_times:
  assumes "runInstances w (instance_request arch fl g w k) = Inr [iid]"
    and "waitRunning w iid = Inr ip"
  shows "(\<forall>m. m < 5 \<and> dial w m (ip @ '':22'') \<and> (\<forall>j<m. \<not> dial w j (ip @ '':22'')) \<longrightarrow>
            startInstance arch fl g w k
            = ([RunInstances (instance_request arch fl g w k), WaitRunning iid]
                 @ concat (replicate m [Dial (ip @ '':22'') 30, Sleep 5])
                 @ [Dial (ip @ '':22'') 30, ConnClose, Sleep 5],
               Inr (ip, iid)))
       \<and> ((\<forall>j<5. \<not> dial w j (ip @ '':22'')) \<longrightarrow>
            startInstance arch fl g w k
            = ([RunInstances (instance_request arch fl g w k), WaitRunning iid]
                 @ concat (replicate 5 [Dial (ip @ '':22'') 30, Sleep 5])
                 @ fst (terminateInstance w iid),
               Inl ''unable to connect to instance''))
       \<and> (\<exists>t. fst (terminateInstance w iid)
                = Print (''terminating instance '' @ iid @ [nl]) # TerminateInstances iid # t
              \<and> filter is_terminate t = [])
       \<and> (snd (startInstance arch fl g w k) = Inr (ip, iid)) = (\<exists>j<5. dial w j (ip @ '':22''))
       \<and> length (filter is_dial (fst (startInstance arch fl g w k))) \<le> 5
       \<and> (\<forall>sig ev. ev \<in> set (workerTrace (main fl arch w sig)) \<longrightarrow>
            (\<exists>p. snd (provision fl arch w) = Some p
                \<and> snd (startInstance arch fl (vars p) w 1) = Inr (publicIP p, instanceID p)))"
proof (intro conjI allI impI)
  fix m
  assume a: "m < 5 \<and> dial w m (ip @ '':22'') \<and> (\<forall>j<m. \<not> dial w j (ip @ '':22''))"
  then have f: "sshProbe w (ip @ '':22'') 0
      = (concat (replicate (m - 0) [Dial (ip @ '':22'') 30, Sleep 5])
           @ [Dial (ip @ '':22'') 30, ConnClose, Sleep 5], True)"
    by (intro sshProbe_first_success) simp_all
  then have "snd (sshProbe w (ip @ '':22'') 0)" by simp
  from startInstance_connected [OF assms this] f
  show "startInstance arch fl g w k
            = ([RunInstances (instance_request arch fl g w k), WaitRunning iid]
                 @ concat (replicate m [Dial (ip @ '':22'') 30, Sleep 5])
                 @ [Dial (ip @ '':22'') 30, ConnClose, Sleep 5],
               Inr (ip, iid))"
    by simp
next
  assume a: "\<forall>j<5. \<not> dial w j (ip @ '':22'')"
  then have f: "sshProbe w (ip @ '':22'') 0
      = (concat (replicate (5 - 0) [Dial (ip @ '':22'') 30, Sleep 5]), False)"
    by (intro sshProbe_all_fail) simp
  then have "\<not> snd (sshProbe w (ip @ '':22'') 0)" by simp
  from startInstance_unreachable [OF assms this] f
  show "startInstance arch fl g w k
            = ([RunInstances (instance_request arch fl g w k), WaitRunning iid]
                 @ concat (replicate 5 [Dial (ip @ '':22'') 30, Sleep 5])
                 @ fst (terminateInstance w iid),
               Inl ''unable to connect to instance'')"
    by simp
next
  from terminateInstance_shape [of w iid]
  show "\<exists>t. fst (terminateInstance w iid)
                = Print (''terminating instance '' @ iid @ [nl]) # TerminateInstances iid # t
              \<and> filter is_terminate t = []"
    by blast
next
  have p: "snd (sshProbe w (ip @ '':22'') 0) = (\<exists>j<5. dial w j (ip @ '':22''))"
    by (simp add: sshProbe_result)
  show "(snd (startInstance arch fl g w k) = Inr (ip, iid)) = (\<exists>j<5. dial w j (ip @ '':22''))"
  proof (cases "snd (sshProbe w (ip @ '':22'') 0)")
    case True
    from startInstance_connected [OF assms True] True p show ?thesis by simp
  next
    case False
    from startInstance_unreachable [OF assms False] False p show ?thesis by simp
  qed
next
  show "length (filter is_dial (fst (startInstance arch fl g w k))) \<le> 5"
    by (rule startInstance_dials)
next
  fix sig ev
  assume "ev \<in> set (workerTrace (main fl arch w sig))"
  then show "\<exists>p. snd (provision fl arch w) = Some p
                \<and> snd (startInstance arch fl (vars p) w 1) = Inr (publicIP p, instanceID p)"
    by (rule worker_needs_instance)
qed

theorem startInstance_probes_five_times_witness:
  "startInstance archX86 fl0 g1 w_retry 1
     = ([RunInstances (instance_request archX86 fl0 g1 w_retry 1), WaitRunning ''i-01'',
         Dial ''1.2.3.4:22'' 30, Sleep 5, Dial ''1.2.3.4:22'' 30, ConnClose, Sleep 5],
        Inr (''1.2.3.4'', ''i-01''))
   \<and> snd (startInstance archX86 fl0 g1 w_late 1) = Inl ''unable to connect to instance''"
proof -
  have r1: "runInstances w_retry (instance_request archX86 fl0 g1 w_retry 1) = Inr [''i-01'']"
    and r2: "waitRunning w_retry ''i-01'' = Inr ''1.2.3.4''"
    and r3: "1 < (5::nat) \<and> dial w_retry 1 (''1.2.3.4'' @ '':22'')
             \<and> (\<forall>j<1. \<not> dial w_retry j (''1.2.3.4'' @ '':22''))"
    by (simp_all add: w_retry_def w0_def)
  have l1: "runInstances w_late (instance_request archX86 fl0 g1 w_late 1) = Inr [''i-01'']"
    and l2: "waitRunning w_late ''i-01'' = Inr ''1.2.3.4''"
    and l3: "\<forall>j<5. \<not> dial w_late j (''1.2.3.4'' @ '':22'')"
    by (simp_all add: w_late_def w0_def)
  from startInstance_probes_five_times [OF r1 r2] r3
  have "startInstance archX86 fl0 g1 w_retry 1
     = ([RunInstances (instance_request archX86 fl0 g1 w_retry 1), WaitRunning ''i-01'']
          @ concat (replicate 1 [Dial (''1.2.3.4'' @ '':22'') 30, Sleep 5])
          @ [Dial (''1.2.3.4'' @ '':22'') 30, ConnClose, Sleep 5],
        Inr (''1.2.3.4'', ''i-01''))"
    by blast
  then have a: "startInstance archX86 fl0 g1 w_retry 1
     = ([RunInstances (instance_request archX86 fl0 g1 w_retry 1), WaitRunning ''i-01'',
         Dial ''1.2.3.4:22'' 30, Sleep 5, Dial ''1.2.3.4:22'' 30, ConnClose, Sleep 5],
        Inr (''1.2.3.4'', ''i-01''))"
    by simp
  from startInstance_probes_five_times [OF l1 l2] l3
  have b: "snd (startInstance archX86 fl0 g1 w_late 1) = Inl ''unable to connect to instance''"
    by (metis snd_conv)
  from a b show ?thesis by blast
qed

text \<open>
  C4, as stated, fails: in the world \<open>w_late\<close> the instance reports running and its port
  22 answers the sixth attempt, but \<^verbatim>\<open>startInstance\<close> has given up after the fifth.
\<close>

theorem unbounded_probing_counterexample:
  "runInstances w_late (instance_request archX86 fl0 g1 w_late 1) = Inr [''i-01'']
   \<and> waitRunning w_late ''i-01'' = Inr ''1.2.3.4''
   \<and> dial w_late 5 ''1.2.3.4:22''
   \<and> snd (startInstance archX86 fl0 g1 w_late 1) = Inl ''unable to connect to instance''
   \<and> length (filter is_dial (fst (startInstance archX86 fl0 g1 w_late 1))) = 5"
  by code_simp

subsection \<open>Failed provisioning\<close>

lemma terminateInstance_last:
  "terminateInstances w iid = None \<longrightarrow>
     fst (terminateInstance w iid)
     = [Print (''terminating instance '' @ iid @ [nl]), TerminateInstances iid]"
  "terminateInstances w iid = Some e \<longrightarrow>
     fst (terminateInstance w iid)
     = [Print (''terminating instance '' @ iid @ [nl]), TerminateInstances iid,
        Print (''error:  unable to terminate instance, '' @ e @ [nl])]"
  by (simp_all add: terminateInstance_def Let_def)

lemma startInstance_failure_trace:
  assumes "runInstances w (instance_request arch fl g w k) = Inr [iid]"
    and "(\<exists>e. waitRunning w iid = Inl e)
         \<or> (\<exists>ip. waitRunning w iid = Inr ip \<and> (\<forall>i<5. \<not> dial w i (ip @ '':22'')))"
  shows "\<exists>t. fst (startInstance arch fl g w k) = t @ fst (terminateInstance w iid)
           \<and> filter is_terminate t = []"
proof -
  from assms(2) consider (wait) e where "waitRunning w iid = Inl e"
    | (probe) ip where "waitRunning w iid = Inr ip" and "\<forall>i<5. \<not> dial w i (ip @ '':22'')"
    by blast
  then show ?thesis
  proof cases
    case wait
    from startInstance_wait_error [OF assms(1) wait]
    have "fst (startInstance arch fl g w k)
          = [RunInstances (instance_request arch fl g w k), WaitRunning iid]
              @ fst (terminateInstance w iid)
        \<and> filter is_terminate [RunInstances (instance_request arch fl g w k), WaitRunning iid] = []"
      by (simp add: is_terminate_def)
    then show ?thesis by blast
  next
    case probe
    from probe(2) have "\<not> snd (sshProbe w (ip @ '':22'') 0)" by (simp add: sshProbe_result)
    from startInstance_unreachable [OF assms(1) probe(1) this]
    have "fst (startInstance arch fl g w k)
          = ([RunInstances (instance_request arch fl g w k), WaitRunning iid]
              @ fst (sshProbe w (ip @ '':22'') 0)) @ fst (terminateInstance w iid)
        \<and> filter is_terminate ([RunInstances (instance_request arch fl g w k), WaitRunning iid]
              @ fst (sshProbe w (ip @ '':22'') 0)) = []"
      by (simp add: is_terminate_def sshProbe_other)
    then show ?thesis by blast
  qed
qed

text \<open>
  C8, as amended. When the instance has been created and provisioning then fails,
  because the wait for the running state fails or because none of the five probes of
  the remote shell port connects, \<^verbatim>\<open>startInstance\<close> returns the provisioning error, and the
  last thing it has done before is \<^verbatim>\<open>terminateInstance\<close> for the instance it created: the
  termination call is issued once, for that instance. The outcome of the call is not
  looked at: when the provider refuses it, the refusal is printed, the error returned is
  still the provisioning error, and the instance is terminated exactly when the
  provider has accepted the call.
\<close>

theorem startInstance_failure_terminates:
  assumes "runInstances w (instance_request arch fl g w k) = Inr [iid]"
    and "(\<exists>e. waitRunning w iid = Inl e)
         \<or> (\<exists>ip. waitRunning w iid = Inr ip \<and> (\<forall>i<5. \<not> dial w i (ip @ '':22'')))"
  shows "(\<forall>e. waitRunning w iid = Inl e \<longrightarrow>
            snd (startInstance arch fl g w k)
            = Inl (''error waiting for instance to be running, '' @ e))
       \<and> (\<forall>ip. waitRunning w iid = Inr ip \<longrightarrow>
            snd (startInstance arch fl g w k) = Inl ''unable to connect to instance'')
       \<and> (\<exists>t. fst (startInstance arch fl g w k) = t @ fst (terminateInstance w iid)
              \<and> filter is_terminate t = [])
       \<and> filter is_terminate (fst (startInstance arch fl g w k)) = [TerminateInstances iid]
       \<and> (terminateInstances w iid = None \<longrightarrow>
            fst (terminateInstance w iid)
            = [Print (''terminating instance '' @ iid @ [nl]), TerminateInstances iid])
       \<and> (\<forall>e. terminateInstances w iid = Some e \<longrightarrow>
            fst (terminateInstance w iid)
            = [Print (''terminating instance '' @ iid @ [nl]), TerminateInstances iid,
               Print (''error:  unable to terminate instance, '' @ e @ [nl])])
       \<and> terminated w (fst (startInstance arch fl g w k)) iid = (terminateInstances w iid = None)"
proof -
  from startInstance_failure_trace [OF assms] obtain t
    where t: "fst (startInstance arch fl g w k) = t @ fst (terminateInstance w iid)"
      "filter is_terminate t = []"
    by blast
  from t have calls: "filter is_terminate (fst (startInstance arch fl g w k)) = [TerminateInstances iid]"
    by (simp add: terminateInstance_calls)
  then have "TerminateInstances iid \<in> set (filter is_terminate (fst (startInstance arch fl g w k)))"
    by simp
  then have mem: "TerminateInstances iid \<in> set (fst (startInstance arch fl g w k))" by simp
  have e1: "snd (startInstance arch fl g w k) = Inl (''error waiting for instance to be running, '' @ e)"
    if "waitRunning w iid = Inl e" for e
    using startInstance_wait_error [OF assms(1) that] by simp
  have e2: "snd (startInstance arch fl g w k) = Inl ''unable to connect to instance''"
    if w: "waitRunning w iid = Inr ip" for ip
  proof -
    from assms(2) w have "\<forall>i<5. \<not> dial w i (ip @ '':22'')" by auto
    then have "\<not> snd (sshProbe w (ip @ '':22'') 0)" by (simp add: sshProbe_result)
    from startInstance_unreachable [OF assms(1) w this] show ?thesis by simp
  qed
  from e1 e2 t calls mem terminateInstance_last [of w iid] show ?thesis
    unfolding terminated_def by blast
qed

theorem startInstance_failure_terminates_witness:
  "filter is_terminate (fst (startInstance archX86 fl0 g1 w_nowait 1)) = [TerminateInstances ''i-01'']
   \<and> terminated w_nowait (fst (startInstance archX86 fl0 g1 w_nowait 1)) ''i-01''
   \<and> filter is_terminate (fst (startInstance archX86 fl0 g1 w_late 1)) = [TerminateInstances ''i-01'']
   \<and> snd (startInstance archX86 fl0 g1 w_late 1) = Inl ''unable to connect to instance''"
proof -
  have n1: "runInstances w_nowait (instance_request archX86 fl0 g1 w_nowait 1) = Inr [''i-01'']"
    by (simp add: w_nowait_def w0_def)
  have n2: "(\<exists>e. waitRunning w_nowait ''i-01'' = Inl e)
         \<or> (\<exists>ip. waitRunning w_nowait ''i-01'' = Inr ip \<and> (\<forall>i<5. \<not> dial w_nowait i (ip @ '':22'')))"
    by (simp add: w_nowait_def w0_def)
  have n3: "terminateInstances w_nowait ''i-01'' = None" by (simp add: w_nowait_def w0_def)
  have l1: "runInstances w_late (instance_request archX86 fl0 g1 w_late 1) = Inr [''i-01'']"
    by (simp add: w_late_def w0_def)
  have l2: "(\<exists>e. waitRunning w_late ''i-01'' = Inl e)
         \<or> (\<exists>ip. waitRunning w_late ''i-01'' = Inr ip \<and> (\<forall>i<5. \<not> dial w_late i (ip @ '':22'')))"
    by (simp add: w_late_def w0_def)
  have l3: "waitRunning w_late ''i-01'' = Inr ''1.2.3.4''" by (simp add: w_late_def w0_def)
  from startInstance_failure_terminates [OF n1 n2] n3
  have a: "filter is_terminate (fst (startInstance archX86 fl0 g1 w_nowait 1)) = [TerminateInstances ''i-01'']
       \<and> terminated w_nowait (fst (startInstance archX86 fl0 g1 w_nowait 1)) ''i-01''"
    by blast
  from startInstance_failure_terminates [OF l1 l2] l3
  have b: "filter is_terminate (fst (startInstance archX86 fl0 g1 w_late 1)) = [TerminateInstances ''i-01'']
       \<and> snd (startInstance archX86 fl0 g1 w_late 1) = Inl ''unable to connect to instance''"
    by blast
  from a b show ?thesis by blast
qed

text \<open>
  C8, as stated, fails: in the world \<open>w_leak\<close> the instance is created, the wait for the
  running state fails, and the termination call that \<^verbatim>\<open>startInstance\<close> issues is refused.
  \<^verbatim>\<open>startInstance\<close> prints the refusal and returns the error of the wait; the instance has
  not been terminated.
\<close>

theorem failed_termination_leaks_counterexample:
  "startInstance archX86 fl0 g1 w_leak 1
     = ([RunInstances (instance_request archX86 fl0 g1 w_leak 1), WaitRunning ''i-01'',
         Print (''terminating instance i-01'' @ [nl]), TerminateInstances ''i-01'',
         Print (''error:  unable to terminate instance, RequestLimitExceeded'' @ [nl])],
        Inl ''error waiting for instance to be running, exceeded max wait time'')
   \<and> runInstances w_leak (instance_request archX86 fl0 g1 w_leak 1) = Inr [''i-01'']
   \<and> terminateInstances w_leak ''i-01'' = Some ''RequestLimitExceeded''
   \<and> \<not> terminated w_leak (fst (startInstance archX86 fl0 g1 w_leak 1)) ''i-01''"
  by code_simp

subsection \<open>Transfer and execution\<close>

lemma strip_prefix_append: "strip_prefix pre (pre @ s) = Some s"
  by (induction pre) simp_all

lemma take_reaches:
  assumes "x \<in> set (take n (a @ y # b))" and "x \<notin> set a"
  shows "y \<in> set (take n (a @ y # b))"
proof (cases "n \<le> length a")
  case True
  with assms(1) have "x \<in> set (take n a)" by simp
  then have "x \<in> set a" by (rule in_set_takeD)
  with assms(2) show ?thesis by blast
next
  case False
  then obtain m where "n = length a + Suc m" by (metis add_Suc_right less_imp_Suc_add not_le)
  then have "take n (a @ y # b) = a @ y # take m b" by simp
  then show ?thesis by simp
qed

lemma worker_shape:
  "\<exists>a b. worker fl w p
           = a @ Exec ''scp'' (scp_args (vars p) w (benchFileName p) (publicIP p)) [] # b
         \<and> filter (is_cmd ''scp'') a = [] \<and> filter (is_cmd ''ssh'') a = []
         \<and> filter (is_cmd ''scp'') b = []
         \<and> filter (is_cmd ''ssh'') b
           = (if cmd_err (scpRun w) = None
              then [Exec ''ssh'' (sshExec_args fl (vars p) w (publicIP p)) []] else [])"
proof -
  let ?a = "[Print (cr # ''ssh ready ('' @ publicIP p @ ''). uploading benchmark binary...'' @ clearStr)]"
  have "\<exists>b. worker fl w p
           = ?a @ Exec ''scp'' (scp_args (vars p) w (benchFileName p) (publicIP p)) [] # b
         \<and> filter (is_cmd ''scp'') ?a = [] \<and> filter (is_cmd ''ssh'') ?a = []
         \<and> filter (is_cmd ''scp'') b = []
         \<and> filter (is_cmd ''ssh'') b
           = (if cmd_err (scpRun w) = None
              then [Exec ''ssh'' (sshExec_args fl (vars p) w (publicIP p)) []] else [])"
    by (cases "cmd_err (scpRun w)"; cases "sshStart w"; cases "sshWait w")
      (simp_all add: worker_def scp_def sshExec_def Let_def is_cmd_def print_error_def)
  then show ?thesis by blast
qed

lemma ssh_needs_scp:
  assumes "snd (provision fl arch w) = Some p"
    and "Exec ''ssh'' x env \<in> set (workerTrace (main fl arch w sig))"
  shows "Exec ''scp'' (scp_args (vars p) w (benchFileName p) (publicIP p)) []
           \<in> set (workerTrace (main fl arch w sig))
         \<and> cmd_err (scpRun w) = None"
proof -
  from assms(1) have pr: "provision fl arch w = (fst (provision fl arch w), Some p)"
    by (simp add: prod_eq_iff)
  obtain a b where sh: "worker fl w p
           = a @ Exec ''scp'' (scp_args (vars p) w (benchFileName p) (publicIP p)) [] # b"
    "filter (is_cmd ''ssh'') a = []"
    "filter (is_cmd ''ssh'') b
           = (if cmd_err (scpRun w) = None
              then [Exec ''ssh'' (sshExec_args fl (vars p) w (publicIP p)) []] else [])"
    using worker_shape [of fl w p] by blast
  have s: "is_cmd ''ssh'' (Exec ''ssh'' x env)" by (simp add: is_cmd_def)
  from sh(2) s have na: "Exec ''ssh'' x env \<notin> set a" by (auto simp: filter_empty_conv)
  have inw: "Exec ''ssh'' x env \<in> set (worker fl w p)"
    using assms(2) pr
    by (cases sig) (auto simp: main_killed main_completed main_interrupted dest: in_set_takeD)
  with sh(1) na have "Exec ''ssh'' x env \<in> set b" by (auto simp: is_cmd_def)
  with s have "Exec ''ssh'' x env \<in> set (filter (is_cmd ''ssh'') b)" by simp
  with sh(3) have ok: "cmd_err (scpRun w) = None" by (auto split: if_splits)
  have "Exec ''scp'' (scp_args (vars p) w (benchFileName p) (publicIP p)) []
           \<in> set (workerTrace (main fl arch w sig))"
  proof (cases sig)
    case NoSignal
    with pr sh(1) show ?thesis by (simp add: main_completed)
  next
    case (BeforeNotify k)
    with assms(2) show ?thesis by (simp add: main_killed)
  next
    case (WhileWaiting n)
    with assms(2) pr sh(1)
    have "Exec ''ssh'' x env
          \<in> set (take n (a @ Exec ''scp'' (scp_args (vars p) w (benchFileName p) (publicIP p)) [] # b))"
      by (simp add: main_interrupted)
    from take_reaches [OF this na] WhileWaiting pr sh(1) show ?thesis
      by (simp add: main_interrupted)
  qed
  with ok show ?thesis by blast
qed

text \<open>
  C9. In a run that has its instance, the goroutine uploads the file that the build has
  returned, to \<^verbatim>\<open>/tmp/bench\<close> of the host \<^verbatim>\<open>ubuntu@publicIP\<close>, and then, when the upload has
  succeeded, runs on the same host \<^verbatim>\<open>./bench\<close> from the directory \<^verbatim>\<open>/tmp\<close>: the path
  uploaded to and the path executed are the same, whatever the flags and whenever a
  signal arrives. The remote command is never issued without the upload before it.
\<close>

theorem upload_path_is_executed_path:
  assumes "snd (provision fl arch w) = Some p"
  shows "snd (compileBenchmarkBinary w 0) = Inr (benchFileName p)
       \<and> (\<exists>a b. workerTrace (main fl arch w NoSignal)
                  = a @ Exec ''scp'' (scp_args (vars p) w (benchFileName p) (publicIP p)) [] # b
                \<and> filter (is_cmd ''scp'') a = [] \<and> filter (is_cmd ''ssh'') a = []
                \<and> filter (is_cmd ''scp'') b = []
                \<and> filter (is_cmd ''ssh'') b
                  = (if cmd_err (scpRun w) = None
                     then [Exec ''ssh'' (sshExec_args fl (vars p) w (publicIP p)) []] else []))
       \<and> (\<forall>sig x env. Exec ''ssh'' x env \<in> set (workerTrace (main fl arch w sig)) \<longrightarrow>
            x = sshExec_args fl (vars p) w (publicIP p)
            \<and> Exec ''scp'' (scp_args (vars p) w (benchFileName p) (publicIP p)) []
                \<in> set (workerTrace (main fl arch w sig))
            \<and> cmd_err (scpRun w) = None)
       \<and> length (scp_args (vars p) w (benchFileName p) (publicIP p)) = 6
       \<and> scp_args (vars p) w (benchFileName p) (publicIP p) ! 4 = benchFileName p
       \<and> scp_args (vars p) w (benchFileName p) (publicIP p) ! 5
           = ''ubuntu@'' @ publicIP p @ '':/tmp/bench''
       \<and> sshExec_args fl (vars p) w (publicIP p) ! 2 = ''ubuntu@'' @ publicIP p
       \<and> sshExec_args fl (vars p) w (publicIP p) ! 3 = ''cd /tmp && ./bench''
       \<and> upload_path (sshExec_args fl (vars p) w (publicIP p) ! 2)
           (scp_args (vars p) w (benchFileName p) (publicIP p) ! 5) = Some ''/tmp/bench''
       \<and> executed_path (sshExec_args fl (vars p) w (publicIP p) ! 3) = Some ''/tmp/bench''
       \<and> upload_path (sshExec_args fl (vars p) w (publicIP p) ! 2)
           (scp_args (vars p) w (benchFileName p) (publicIP p) ! 5)
         = executed_path (sshExec_args fl (vars p) w (publicIP p) ! 3)"
proof -
  from assms have pr: "provision fl arch w = (fst (provision fl arch w), Some p)"
    by (simp add: prod_eq_iff)
  from provision_some [OF pr]
  have c1: "snd (compileBenchmarkBinary w 0) = Inr (benchFileName p)" by blast
  from worker_shape [of fl w p] pr
  have c2: "\<exists>a b. workerTrace (main fl arch w NoSignal)
                  = a @ Exec ''scp'' (scp_args (vars p) w (benchFileName p) (publicIP p)) [] # b
                \<and> filter (is_cmd ''scp'') a = [] \<and> filter (is_cmd ''ssh'') a = []
                \<and> filter (is_cmd ''scp'') b = []
                \<and> filter (is_cmd ''ssh'') b
                  = (if cmd_err (scpRun w) = None
                     then [Exec ''ssh'' (sshExec_args fl (vars p) w (publicIP p)) []] else [])"
    by (simp add: main_completed)
  have c3: "x = sshExec_args fl (vars p) w (publicIP p)
            \<and> Exec ''scp'' (scp_args (vars p) w (benchFileName p) (publicIP p)) []
                \<in> set (workerTrace (main fl arch w sig))
            \<and> cmd_err (scpRun w) = None"
    if h: "Exec ''ssh'' x env \<in> set (workerTrace (main fl arch w sig))" for sig x env
  proof -
    from worker_of_run [OF h] assms have "Exec ''ssh'' x env \<in> set (worker fl w p)" by simp
    then have "x = sshExec_args fl (vars p) w (publicIP p)" by (rule ssh_event_of_worker)
    with ssh_needs_scp [OF assms h] show ?thesis by blast
  qed
  have c4: "length (scp_args (vars p) w (benchFileName p) (publicIP p)) = 6"
    and c5: "scp_args (vars p) w (benchFileName p) (publicIP p) ! 4 = benchFileName p"
    and c6: "scp_args (vars p) w (benchFileName p) (publicIP p) ! 5
           = ''ubuntu@'' @ publicIP p @ '':/tmp/bench''"
    by (simp_all add: scp_args_def)
  have c7: "sshExec_args fl (vars p) w (publicIP p) ! 2 = ''ubuntu@'' @ publicIP p"
    and c8: "sshExec_args fl (vars p) w (publicIP p) ! 3 = ''cd /tmp && ./bench''"
    by (simp_all add: sshExec_args_explicit)
  have "upload_path (''ubuntu@'' @ publicIP p) ((''ubuntu@'' @ publicIP p) @ '':'' @ ''/tmp/bench'')
        = Some ''/tmp/bench''"
    unfolding upload_path_def by (simp only: strip_prefix_append append_assoc [symmetric])
  then have c9: "upload_path (sshExec_args fl (vars p) w (publicIP p) ! 2)
           (scp_args (vars p) w (benchFileName p) (publicIP p) ! 5) = Some ''/tmp/bench''"
    by (simp add: c6 c7)
  have "executed_path ''cd /tmp && ./bench'' = Some ''/tmp/bench''"
    by (simp add: executed_path_def)
  then have c10: "executed_path (sshExec_args fl (vars p) w (publicIP p) ! 3) = Some ''/tmp/bench''"
    by (simp only: c8)
  from c9 c10 have c11: "upload_path (sshExec_args fl (vars p) w (publicIP p) ! 2)
           (scp_args (vars p) w (benchFileName p) (publicIP p) ! 5)
         = executed_path (sshExec_args fl (vars p) w (publicIP p) ! 3)"
    by simp
  from c1 c2 c3 c4 c5 c6 c7 c8 c9 c10 c11 show ?thesis by blast
qed

theorem upload_path_is_executed_path_witness:
  "snd (provision fl1 archX86 w0) = Some p0
   \<and> Exec ''ssh'' (sshExec_args fl1 g1 w0 ''1.2.3.4'') []
       \<in> set (workerTrace (main fl1 archX86 w0 (WhileWaiting 8)))
   \<and> Exec ''scp'' (scp_args g1 w0 ''/tmp/bench-abcdefg'' ''1.2.3.4'') []
       \<in> set (workerTrace (main fl1 archX86 w0 (WhileWaiting 8)))
   \<and> scp_args g1 w0 ''/tmp/bench-abcdefg'' ''1.2.3.4'' ! 5 = ''ubuntu@1.2.3.4:/tmp/bench''
   \<and> upload_path ''ubuntu@1.2.3.4'' ''ubuntu@1.2.3.4:/tmp/bench''
     = executed_path ''cd /tmp && ./bench''"
proof -
  have p: "snd (provision fl1 archX86 w0) = Some p0" by code_simp
  have s: "Exec ''ssh'' (sshExec_args fl1 g1 w0 ''1.2.3.4'') []
       \<in> set (workerTrace (main fl1 archX86 w0 (WhileWaiting 8)))"
    by code_simp
  have v: "vars p0 = g1" "benchFileName p0 = ''/tmp/bench-abcdefg''" "publicIP p0 = ''1.2.3.4''"
    by (simp_all add: p0_def)
  note t = upload_path_is_executed_path [OF p, unfolded v]
  from t s have a: "Exec ''scp'' (scp_args g1 w0 ''/tmp/bench-abcdefg'' ''1.2.3.4'') []
       \<in> set (workerTrace (main fl1 archX86 w0 (WhileWaiting 8)))"
    by blast
  from t have b: "scp_args g1 w0 ''/tmp/bench-abcdefg'' ''1.2.3.4'' ! 5 = ''ubuntu@'' @ ''1.2.3.4'' @ '':/tmp/bench''"
    by blast
  have c: "upload_path ''ubuntu@1.2.3.4'' ''ubuntu@1.2.3.4:/tmp/bench''
     = executed_path ''cd /tmp && ./bench''"
    by code_simp
  from p s a b c show ?thesis by simp
qed

lemma startInstance_ok_iff:
  assumes "snd (startInstance arch fl g w k) = Inr (ip, iid)"
  shows "runInstances w (instance_request arch fl g w k) = Inr [iid] \<and> waitRunning w iid = Inr ip"
  using assms
  by (cases rule: startInstance_cases [of w arch fl g k])
    (simp_all add: startInstance_run_error startInstance_count_error startInstance_wait_error
      startInstance_connected startInstance_unreachable)

lemma main_run_calls:
  "length (filter is_run_instances
      (mainTrace (main fl arch w sig) @ workerTrace (main fl arch w sig))) \<le> 1"
proof -
  have "(case snd (provision fl arch w) of None \<Rightarrow> 0
         | Some p \<Rightarrow> length (filter is_run_instances (fst (terminateInstance w (instanceID p))))
                     + length (filter is_run_instances (worker fl w p))) = 0"
    by (simp add: terminateInstance_other worker_other split: option.splits)
  with main_filter_bound [of is_run_instances fl arch w sig] provision_run_calls [of fl arch w]
  show ?thesis by (simp add: is_run_instances_def)
qed

lemma main_run_calls_exact:
  assumes "snd (gitCommitID w) = Inr cid" and "snd (compileBenchmarkBinary w 0) = Inr bin"
    and "snd (snd (initAWS globals0 w)) = None"
  shows "filter is_run_instances (mainTrace (main fl arch w NoSignal))
         = [RunInstances (instance_request arch fl (fst (snd (initAWS globals0 w))) w 1)]"
proof -
  obtain rest where c: "fst (compileBenchmarkBinary w 0)
      = Exec ''go'' [''test'', ''-c'', ''-o'', ''/tmp/bench-'' @ randString w 0 7] (compile_env w) # rest"
    "filter is_run_instances rest = []"
    using compile_trace [of w 0 "''go''"] by blast
  note facts = c git_trace initAWS_trace startInstance_run_calls terminateInstance_other
    print_error_def is_run_instances_def
  show ?thesis
  proof (cases "snd (startInstance arch fl (fst (snd (initAWS globals0 w))) w 1)")
    case (Inl e)
    from provision_start_error [OF assms Inl]
    show ?thesis by (simp add: main_failed facts)
  next
    case (Inr r)
    then have "snd (startInstance arch fl (fst (snd (initAWS globals0 w))) w 1) = Inr (fst r, snd r)"
      by simp
    from provision_ok [OF assms this]
    show ?thesis by (simp add: main_completed facts)
  qed
qed

text \<open>
  C7. \<^verbatim>\<open>startInstance\<close> issues \<^verbatim>\<open>RunInstances\<close> once, asking for a minimum and a maximum of
  one instance. When the provider answers with a number of instances other than one, it
  returns the error \<^verbatim>\<open>expected 1 instance, got n\<close>. When it succeeds, the id it returns is
  that of the only instance of the answer and the address is the one reported for that
  id. A whole run issues \<^verbatim>\<open>RunInstances\<close> at most once, whenever a signal arrives, and
  exactly once when it runs undisturbed and gets as far as \<^verbatim>\<open>startInstance\<close>.
\<close>

theorem startInstance_single_instance:
  "filter is_run_instances (fst (startInstance arch fl g w k))
     = [RunInstances (instance_request arch fl g w k)]
   \<and> MinCount (instance_request arch fl g w k) = 1
   \<and> MaxCount (instance_request arch fl g w k) = 1
   \<and> (\<forall>insts. runInstances w (instance_request arch fl g w k) = Inr insts \<and> length insts \<noteq> 1 \<longrightarrow>
         snd (startInstance arch fl g w k)
         = Inl (''expected 1 instance, got '' @ fmt_d (int (length insts))))
   \<and> (\<forall>ip iid. snd (startInstance arch fl g w k) = Inr (ip, iid) \<longrightarrow>
         runInstances w (instance_request arch fl g w k) = Inr [iid] \<and> waitRunning w iid = Inr ip)
   \<and> length (filter is_run_instances
        (mainTrace (main fl arch w sig) @ workerTrace (main fl arch w sig))) \<le> 1
   \<and> (\<forall>cid bin. snd (gitCommitID w) = Inr cid \<and> snd (compileBenchmarkBinary w 0) = Inr bin
         \<and> snd (snd (initAWS globals0 w)) = None \<longrightarrow>
         filter is_run_instances (mainTrace (main fl arch w NoSignal))
         = [RunInstances (instance_request arch fl (fst (snd (initAWS globals0 w))) w 1)])"
proof (intro conjI allI impI)
  show "filter is_run_instances (fst (startInstance arch fl g w k))
     = [RunInstances (instance_request arch fl g w k)]"
    by (rule startInstance_run_calls)
  show "MinCount (instance_request arch fl g w k) = 1" by (simp add: instance_request_def)
  show "MaxCount (instance_request arch fl g w k) = 1" by (simp add: instance_request_def)
  show "length (filter is_run_instances
        (mainTrace (main fl arch w sig) @ workerTrace (main fl arch w sig))) \<le> 1"
    by (rule main_run_calls)
next
  fix cid bin
  assume "snd (gitCommitID w) = Inr cid \<and> snd (compileBenchmarkBinary w 0) = Inr bin
         \<and> snd (snd (initAWS globals0 w)) = None"
  then show "filter is_run_instances (mainTrace (main fl arch w NoSignal))
         = [RunInstances (instance_request arch fl (fst (snd (initAWS globals0 w))) w 1)]"
    using main_run_calls_exact by blast
next
  fix insts
  assume "runInstances w (instance_request arch fl g w k) = Inr insts \<and> length insts \<noteq> 1"
  then show "snd (startInstance arch fl g w k)
         = Inl (''expected 1 instance, got '' @ fmt_d (int (length insts)))"
    by (simp add: startInstance_count_error)
next
  fix ip iid
  assume ok: "snd (startInstance arch fl g w k) = Inr (ip, iid)"
  from startInstance_ok_iff [OF ok]
  show "runInstances w (instance_request arch fl g w k) = Inr [iid]" by blast
  from startInstance_ok_iff [OF ok] show "waitRunning w iid = Inr ip" by blast
qed

theorem startInstance_single_instance_witness:
  "snd (startInstance archX86 fl0 g1 w_two 1) = Inl ''expected 1 instance, got 2''
   \<and> snd (startInstance archX86 fl0 g1 w0 1) = Inr (''1.2.3.4'', ''i-01'')
   \<and> runInstances w0 (instance_request archX86 fl0 g1 w0 1) = Inr [''i-01'']"
proof -
  have d: "fmt_d (int (length [''i-01'', ''i-02''])) = ''2''"
    by (simp add: fmt_d_def fmt_nat.simps digits_def)
  have t: "runInstances w_two (instance_request archX86 fl0 g1 w_two 1) = Inr [''i-01'', ''i-02'']
           \<and> length [''i-01'', ''i-02''] \<noteq> 1"
    by (simp add: w_two_def w0_def)
  have s: "snd (startInstance archX86 fl0 g1 w0 1) = Inr (''1.2.3.4'', ''i-01'')" by code_simp
  from startInstance_single_instance [of archX86 fl0 g1 w_two 1 NoSignal] t
  have "snd (startInstance archX86 fl0 g1 w_two 1)
        = Inl (''expected 1 instance, got '' @ fmt_d (int (length [''i-01'', ''i-02''])))"
    by blast
  then have a: "snd (startInstance archX86 fl0 g1 w_two 1) = Inl ''expected 1 instance, got 2''"
    by (simp only: d) simp
  from startInstance_single_instance [of archX86 fl0 g1 w0 1 NoSignal] s
  have b: "runInstances w0 (instance_request archX86 fl0 g1 w0 1) = Inr [''i-01'']" by blast
  from a s b show ?thesis by blast
qed

subsection \<open>Teardown\<close>

lemma main_teardown:
  assumes "snd (provision fl arch w) = Some p" and "sig = NoSignal \<or> sig = WhileWaiting n"
  shows "\<exists>t. mainTrace (main fl arch w sig)
             = fst (provision fl arch w) @ Notify # Print (''terminating instance '' @ instanceID p @ [nl])
                 # TerminateInstances (instanceID p) # t @ [Exit 0]
           \<and> filter is_terminate t = []"
    and "filter is_terminate (fst (provision fl arch w)) = []"
    and "filter is_terminate (workerTrace (main fl arch w sig)) = []"
    and "terminate_calls (mainTrace (main fl arch w sig) @ workerTrace (main fl arch w sig)) = 1"
    and "runInstances w (instance_request arch fl (vars p) w 1) = Inr [instanceID p]"
    and "terminated w (mainTrace (main fl arch w sig)) (instanceID p)
         = (terminateInstances w (instanceID p) = None)"
proof -
  from assms(1) have pr: "provision fl arch w = (fst (provision fl arch w), Some p)"
    by (simp add: prod_eq_iff)
  from assms(2) have m: "mainTrace (main fl arch w sig)
      = fst (provision fl arch w) @ [Notify] @ fst (terminateInstance w (instanceID p)) @ [Exit 0]"
    using main_completed [OF pr] main_interrupted [OF pr] by auto
  from terminateInstance_shape [of w "instanceID p"] obtain t
    where t: "fst (terminateInstance w (instanceID p))
         = Print (''terminating instance '' @ instanceID p @ [nl]) # TerminateInstances (instanceID p) # t"
      "filter is_terminate t = []"
    by blast
  from m t show "\<exists>t. mainTrace (main fl arch w sig)
             = fst (provision fl arch w) @ Notify # Print (''terminating instance '' @ instanceID p @ [nl])
                 # TerminateInstances (instanceID p) # t @ [Exit 0]
           \<and> filter is_terminate t = []"
    by simp
  from provision_some [OF pr] show pre: "filter is_terminate (fst (provision fl arch w)) = []"
    by blast
  have "length (filter is_terminate (take k (worker fl w p))) \<le> length (filter is_terminate (worker fl w p))"
    for k
    by (rule filter_take_length)
  then have tk: "filter is_terminate (take k (worker fl w p)) = []" for k
    using worker_other [of fl w p] by simp
  from assms(2) show wk: "filter is_terminate (workerTrace (main fl arch w sig)) = []"
    using main_completed [OF pr] main_interrupted [OF pr] worker_other [of fl w p] tk by auto
  from m pre wk show "terminate_calls (mainTrace (main fl arch w sig) @ workerTrace (main fl arch w sig)) = 1"
    by (simp add: terminate_calls_def terminateInstance_calls is_terminate_def)
  from provision_some [OF pr] startInstance_ok_iff [of arch fl "vars p" w 1 "publicIP p" "instanceID p"]
  show "runInstances w (instance_request arch fl (vars p) w 1) = Inr [instanceID p]" by blast
  from m t show "terminated w (mainTrace (main fl arch w sig)) (instanceID p)
         = (terminateInstances w (instanceID p) = None)"
    by (simp add: terminated_def)
qed

lemma worker_closes: "last (worker fl w p) = CloseChan"
  by (cases "cmd_err (scpRun w)"; cases "sshStart w"; cases "sshWait w")
    (simp_all add: worker_def scp_def sshExec_def Let_def)

text \<open>
  C2, as amended. When the run has its instance, so that the channel is registered with
  \<^verbatim>\<open>signal.Notify\<close>, and a signal arrives while \<^verbatim>\<open>main\<close> waits on the channel, then \<^verbatim>\<open>main\<close>
  calls \<^verbatim>\<open>terminateInstance\<close> for the instance that \<^verbatim>\<open>startInstance\<close> created and ends the
  process with \<^verbatim>\<open>os.Exit(0)\<close>: in the whole run the termination call is issued exactly once,
  after the registration and before the exit, however far the goroutine has got. When in
  such a run the signal arrives before the registration instead, it ends the process at
  once and no termination call is issued.
\<close>

theorem signal_while_waiting_terminates_once:
  assumes "snd (provision fl arch w) = Some p"
  shows "(\<exists>t. mainTrace (main fl arch w (WhileWaiting n))
             = fst (provision fl arch w) @ Notify # Print (''terminating instance '' @ instanceID p @ [nl])
                 # TerminateInstances (instanceID p) # t @ [Exit 0]
           \<and> filter is_terminate t = [])
       \<and> filter is_terminate (fst (provision fl arch w)) = []
       \<and> workerTrace (main fl arch w (WhileWaiting n)) = take n (worker fl w p)
       \<and> filter is_terminate (workerTrace (main fl arch w (WhileWaiting n))) = []
       \<and> terminate_calls (mainTrace (main fl arch w (WhileWaiting n))
                           @ workerTrace (main fl arch w (WhileWaiting n))) = 1
       \<and> runInstances w (instance_request arch fl (vars p) w 1) = Inr [instanceID p]
       \<and> main fl arch w (BeforeNotify k)
           = \<lparr>mainTrace = take k (fst (provision fl arch w)) @ [Killed], workerTrace = []\<rparr>
       \<and> terminate_calls (mainTrace (main fl arch w (BeforeNotify k))
                           @ workerTrace (main fl arch w (BeforeNotify k))) = 0"
proof -
  from assms have pr: "provision fl arch w = (fst (provision fl arch w), Some p)"
    by (simp add: prod_eq_iff)
  have s: "WhileWaiting n = NoSignal \<or> WhileWaiting n = WhileWaiting n" by simp
  from main_interrupted [OF pr]
  have wt: "workerTrace (main fl arch w (WhileWaiting n)) = take n (worker fl w p)" by simp
  note r = main_teardown(1-5) [OF assms s]
  have "length (filter is_terminate (take k (fst (provision fl arch w))))
        \<le> length (filter is_terminate (fst (provision fl arch w)))"
    by (rule filter_take_length)
  with r(2) have "filter is_terminate (take k (fst (provision fl arch w))) = []" by simp
  then have z: "terminate_calls (mainTrace (main fl arch w (BeforeNotify k))
                           @ workerTrace (main fl arch w (BeforeNotify k))) = 0"
    by (simp add: main_killed terminate_calls_def is_terminate_def)
  show ?thesis
    apply (intro conjI)
    apply (rule r(1))
    apply (rule r(2))
    apply (rule wt)
    apply (rule r(3))
    apply (rule r(4))
    apply (rule r(5))
    apply (rule main_killed)
    apply (rule z)
    done
qed

theorem signal_while_waiting_terminates_once_witness:
  "snd (provision fl1 archX86 w0) = Some p0
   \<and> terminate_calls (mainTrace (main fl1 archX86 w0 (WhileWaiting 3))
                       @ workerTrace (main fl1 archX86 w0 (WhileWaiting 3))) = 1
   \<and> runInstances w0 (instance_request archX86 fl1 g1 w0 1) = Inr [''i-01'']"
proof -
  have p: "snd (provision fl1 archX86 w0) = Some p0" by code_simp
  have v: "vars p0 = g1" "instanceID p0 = ''i-01''" by (simp_all add: p0_def)
  note t = signal_while_waiting_terminates_once [OF p, of 3 0, unfolded v]
  from t p show ?thesis by blast
qed

text \<open>
  C2, as stated, fails: the channel is registered only after \<^verbatim>\<open>startInstance\<close> has returned.
  In the world \<open>w0\<close>, a signal that arrives when \<^verbatim>\<open>main\<close> has issued twelve events (the
  instance is created and \<^verbatim>\<open>main\<close> waits for it to run) ends the process, and no
  termination call has been issued.
\<close>

theorem signal_during_provisioning_counterexample:
  "runInstances w0 (instance_request archX86 fl0 g1 w0 1) = Inr [''i-01'']
   \<and> RunInstances (instance_request archX86 fl0 g1 w0 1)
       \<in> set (mainTrace (main fl0 archX86 w0 (BeforeNotify 12)))
   \<and> WaitRunning ''i-01'' \<in> set (mainTrace (main fl0 archX86 w0 (BeforeNotify 12)))
   \<and> last (mainTrace (main fl0 archX86 w0 (BeforeNotify 12))) = Killed
   \<and> terminate_calls (mainTrace (main fl0 archX86 w0 (BeforeNotify 12))
                       @ workerTrace (main fl0 archX86 w0 (BeforeNotify 12))) = 0"
  by code_simp

text \<open>
  C6. In a run that gets to the execution step, whether the goroutine runs to its end and
  closes the channel or a signal arrives while \<^verbatim>\<open>main\<close> waits, \<^verbatim>\<open>main\<close> calls
  \<^verbatim>\<open>terminateInstance\<close> for the instance that \<^verbatim>\<open>startInstance\<close> created and then ends the
  process with \<^verbatim>\<open>os.Exit(0)\<close>: the termination call is issued, once, before the exit. The
  instance is then terminated exactly when the provider accepts the call.
\<close>

theorem teardown_on_completion_and_on_signal:
  assumes "Exec ''ssh'' x env \<in> set (workerTrace (main fl arch w sig))"
  shows "\<exists>p t. snd (provision fl arch w) = Some p
           \<and> runInstances w (instance_request arch fl (vars p) w 1) = Inr [instanceID p]
           \<and> mainTrace (main fl arch w sig)
             = fst (provision fl arch w) @ Notify # Print (''terminating instance '' @ instanceID p @ [nl])
                 # TerminateInstances (instanceID p) # t @ [Exit 0]
           \<and> filter is_terminate t = []
           \<and> filter is_terminate (fst (provision fl arch w)) = []
           \<and> filter is_terminate (workerTrace (main fl arch w sig)) = []
           \<and> terminate_calls (mainTrace (main fl arch w sig) @ workerTrace (main fl arch w sig)) = 1
           \<and> (sig = NoSignal \<or> (\<exists>n. sig = WhileWaiting n))
           \<and> (if sig = NoSignal
               then workerTrace (main fl arch w sig) = worker fl w p \<and> last (worker fl w p) = CloseChan
               else \<exists>n. workerTrace (main fl arch w sig) = take n (worker fl w p))
           \<and> terminated w (mainTrace (main fl arch w sig)) (instanceID p)
             = (terminateInstances w (instanceID p) = None)"
proof -
  from worker_of_run [OF assms] obtain p where p: "snd (provision fl arch w) = Some p" by blast
  then have pr: "provision fl arch w = (fst (provision fl arch w), Some p)" by (simp add: prod_eq_iff)
  from assms have nk: "sig \<noteq> BeforeNotify k" for k by (auto simp: main_killed)
  then obtain n where s: "sig = NoSignal \<or> sig = WhileWaiting n" by (cases sig) auto
  then have s': "sig = NoSignal \<or> (\<exists>n. sig = WhileWaiting n)" by blast
  from s have wt: "if sig = NoSignal
      then workerTrace (main fl arch w sig) = worker fl w p \<and> last (worker fl w p) = CloseChan
      else \<exists>n. workerTrace (main fl arch w sig) = take n (worker fl w p)"
    using main_completed [OF pr] main_interrupted [OF pr] worker_closes [of fl w p] by auto
  from main_teardown(1) [OF p s] obtain t
    where t: "mainTrace (main fl arch w sig)
             = fst (provision fl arch w) @ Notify # Print (''terminating instance '' @ instanceID p @ [nl])
                 # TerminateInstances (instanceID p) # t @ [Exit 0]"
      "filter is_terminate t = []"
    by blast
  note r = main_teardown(2-6) [OF p s]
  show ?thesis
    apply (rule exI [of _ p])
    apply (rule exI [of _ t])
    apply (intro conjI)
    apply (rule p)
    apply (rule r(4))
    apply (rule t(1))
    apply (rule t(2))
    apply (rule r(1))
    apply (rule r(2))
    apply (rule r(3))
    apply (rule s')
    apply (rule wt)
    apply (rule r(5))
    done
qed

theorem teardown_on_completion_and_on_signal_witness:
  "terminate_calls (mainTrace (main fl1 archX86 w0 NoSignal)
                    @ workerTrace (main fl1 archX86 w0 NoSignal)) = 1
   \<and> terminate_calls (mainTrace (main fl1 archX86 w0 (WhileWaiting 8))
                    @ workerTrace (main fl1 archX86 w0 (WhileWaiting 8))) = 1
   \<and> last (mainTrace (main fl1 archX86 w0 NoSignal)) = Exit 0
   \<and> last (mainTrace (main fl1 archX86 w0 (WhileWaiting 8))) = Exit 0"
proof -
  have a: "Exec ''ssh'' (sshExec_args fl1 g1 w0 ''1.2.3.4'') []
       \<in> set (workerTrace (main fl1 archX86 w0 NoSignal))"
    by code_simp
  have b: "Exec ''ssh'' (sshExec_args fl1 g1 w0 ''1.2.3.4'') []
       \<in> set (workerTrace (main fl1 archX86 w0 (WhileWaiting 8)))"
    by code_simp
  from teardown_on_completion_and_on_signal [OF a]
  have c: "terminate_calls (mainTrace (main fl1 archX86 w0 NoSignal)
                    @ workerTrace (main fl1 archX86 w0 NoSignal)) = 1
       \<and> last (mainTrace (main fl1 archX86 w0 NoSignal)) = Exit 0"
    by (elim exE conjE) simp
  from teardown_on_completion_and_on_signal [OF b]
  have d: "terminate_calls (mainTrace (main fl1 archX86 w0 (WhileWaiting 8))
                    @ workerTrace (main fl1 archX86 w0 (WhileWaiting 8))) = 1
       \<and> last (mainTrace (main fl1 archX86 w0 (WhileWaiting 8))) = Exit 0"
    by (elim exE conjE) simp
  from c d show ?thesis by blast
qed

subsection \<open>Failing steps\<close>

lemma provision_no_scp: "filter (is_cmd ''scp'') (fst (provision fl arch w)) = []"
proof -
  obtain rest where c: "fst (compileBenchmarkBinary w 0)
      = Exec ''go'' [''test'', ''-c'', ''-o'', ''/tmp/bench-'' @ randString w 0 7] (compile_env w) # rest"
    "filter (is_cmd ''scp'') rest = []"
    using compile_trace [of w 0 "''scp''"] by blast
  have g: "filter (is_cmd ''scp'') (fst (gitCommitID w)) = []"
    using git_trace [of w "''scp''"] by simp
  note facts = c g initAWS_trace startInstance_no_cmd print_error_def is_cmd_def
  show ?thesis
  proof (cases rule: provision_cases [where w = w and arch = arch and fl = fl])
    case (git_error e)
    show ?thesis by (simp add: provision_git_error [OF git_error] facts)
  next
    case (build_error cid e)
    show ?thesis by (simp add: provision_build_error [OF build_error] facts)
  next
    case (aws_error cid bin e)
    show ?thesis by (simp add: provision_aws_error [OF aws_error] facts)
  next
    case (start_error cid bin e)
    show ?thesis by (simp add: provision_start_error [OF start_error] facts)
  next
    case (ok cid bin ip iid)
    show ?thesis by (simp add: provision_ok [OF ok] facts)
  qed
qed

lemma main_step_calls:
  "length (filter (is_cmd ''go'')
      (mainTrace (main fl arch w sig) @ workerTrace (main fl arch w sig))) \<le> 1"
  "length (filter (is_cmd ''scp'')
      (mainTrace (main fl arch w sig) @ workerTrace (main fl arch w sig))) \<le> 1"
proof -
  have g: "length (filter (is_cmd ''go'') (fst (provision fl arch w))) \<le> 1"
    using provision_go_calls [of fl arch w] by auto
  have "(case snd (provision fl arch w) of None \<Rightarrow> 0
         | Some p \<Rightarrow> length (filter (is_cmd ''go'') (fst (terminateInstance w (instanceID p))))
                     + length (filter (is_cmd ''go'') (worker fl w p))) = 0"
    by (simp add: terminateInstance_other worker_other split: option.splits)
  with main_filter_bound [of "is_cmd ''go''" fl arch w sig] g
  show "length (filter (is_cmd ''go'')
      (mainTrace (main fl arch w sig) @ workerTrace (main fl arch w sig))) \<le> 1"
    by (simp add: is_cmd_def)
  have k: "length (filter (is_cmd ''scp'') (worker fl w p)) = 1" for p
  proof -
    obtain a b where "worker fl w p
           = a @ Exec ''scp'' (scp_args (vars p) w (benchFileName p) (publicIP p)) [] # b"
      "filter (is_cmd ''scp'') a = []" "filter (is_cmd ''scp'') b = []"
      using worker_shape [of fl w p] by blast
    then show ?thesis by (simp add: is_cmd_def)
  qed
  have "(case snd (provision fl arch w) of None \<Rightarrow> 0
         | Some p \<Rightarrow> length (filter (is_cmd ''scp'') (fst (terminateInstance w (instanceID p))))
                     + length (filter (is_cmd ''scp'') (worker fl w p))) \<le> 1"
    by (simp add: terminateInstance_other k split: option.splits)
  with main_filter_bound [of "is_cmd ''scp''" fl arch w sig] provision_no_scp [of fl arch w]
  show "length (filter (is_cmd ''scp'')
      (mainTrace (main fl arch w sig) @ workerTrace (main fl arch w sig))) \<le> 1"
    by (simp add: is_cmd_def)
qed

lemma worker_scp_error:
  assumes "cmd_err (scpRun w) = Some e"
  shows "worker fl w p
         = [Print (cr # ''ssh ready ('' @ publicIP p @ ''). uploading benchmark binary...'' @ clearStr),
            Exec ''scp'' (scp_args (vars p) w (benchFileName p) (publicIP p)) [],
            print_error (''failed to upload the binary: '' @ [nl] @ ''stdout: '' @ cmd_stdout (scpRun w)
                         @ [nl] @ ''stderr: '' @ cmd_stderr (scpRun w) @ '', '' @ e),
            CloseChan]"
  using assms by (simp add: worker_def scp_def Let_def)

text \<open>
  C5, as amended. A failing step ends the run and is not run again: when the commit
  lookup, the build, \<^verbatim>\<open>initAWS\<close> or \<^verbatim>\<open>startInstance\<close> returns an error, \<^verbatim>\<open>main\<close> prints it and
  returns, and nothing else is started; when the upload fails, the goroutine prints the
  error and closes the channel without running the benchmark, and \<^verbatim>\<open>main\<close> calls
  \<^verbatim>\<open>terminateInstance\<close> and exits; the build command, \<^verbatim>\<open>RunInstances\<close> and \<^verbatim>\<open>scp\<close> are each
  issued at most once in a run. Inside \<^verbatim>\<open>startInstance\<close> a connection attempt that fails
  is repeated: at most five attempts are made, and once the instance is running
  \<^verbatim>\<open>startInstance\<close> fails with \<^verbatim>\<open>unable to connect to instance\<close> exactly when all five have
  failed.
\<close>

theorem steps_fail_fast:
  "(\<forall>e. snd (gitCommitID w) = Inl e \<longrightarrow>
      main fl arch w NoSignal
      = \<lparr>mainTrace = fst (gitCommitID w) @ [print_error e, Return], workerTrace = []\<rparr>)
   \<and> (\<forall>cid e. snd (gitCommitID w) = Inr cid \<and> snd (compileBenchmarkBinary w 0) = Inl e \<longrightarrow>
      main fl arch w NoSignal
      = \<lparr>mainTrace = fst (gitCommitID w) @ fst (compileBenchmarkBinary w 0) @ [print_error e, Return],
         workerTrace = []\<rparr>)
   \<and> (\<forall>cid bin e. snd (gitCommitID w) = Inr cid \<and> snd (compileBenchmarkBinary w 0) = Inr bin
        \<and> snd (snd (initAWS globals0 w)) = Some e \<longrightarrow>
      main fl arch w NoSignal
      = \<lparr>mainTrace = fst (gitCommitID w) @ fst (compileBenchmarkBinary w 0)
                      @ fst (initAWS globals0 w) @ [print_error e, Return],
         workerTrace = []\<rparr>)
   \<and> (\<forall>cid bin e. snd (gitCommitID w) = Inr cid \<and> snd (compileBenchmarkBinary w 0) = Inr bin
        \<and> snd (snd (initAWS globals0 w)) = None
        \<and> snd (startInstance arch fl (fst (snd (initAWS globals0 w))) w 1) = Inl e \<longrightarrow>
      main fl arch w NoSignal
      = \<lparr>mainTrace = fst (gitCommitID w) @ fst (compileBenchmarkBinary w 0)
                      @ fst (initAWS globals0 w)
                      @ [Print (cr # ''starting '' @ instanceType fl @ '' instance...'' @ clearStr)]
                      @ fst (startInstance arch fl (fst (snd (initAWS globals0 w))) w 1)
                      @ [print_error e, Return],
         workerTrace = []\<rparr>)
   \<and> (\<forall>p e. snd (provision fl arch w) = Some p \<and> cmd_err (scpRun w) = Some e \<longrightarrow>
      main fl arch w NoSignal
      = \<lparr>mainTrace = fst (provision fl arch w) @ [Notify]
                      @ fst (terminateInstance w (instanceID p)) @ [Exit 0],
         workerTrace =
           [Print (cr # ''ssh ready ('' @ publicIP p @ ''). uploading benchmark binary...'' @ clearStr),
            Exec ''scp'' (scp_args (vars p) w (benchFileName p) (publicIP p)) [],
            print_error (''failed to upload the binary: '' @ [nl] @ ''stdout: '' @ cmd_stdout (scpRun w)
                         @ [nl] @ ''stderr: '' @ cmd_stderr (scpRun w) @ '', '' @ e),
            CloseChan]\<rparr>)
   \<and> length (filter (is_cmd ''go'')
        (mainTrace (main fl arch w sig) @ workerTrace (main fl arch w sig))) \<le> 1
   \<and> length (filter is_run_instances
        (mainTrace (main fl arch w sig) @ workerTrace (main fl arch w sig))) \<le> 1
   \<and> length (filter (is_cmd ''scp'')
        (mainTrace (main fl arch w sig) @ workerTrace (main fl arch w sig))) \<le> 1
   \<and> length (filter is_dial (fst (startInstance arch fl g w k))) \<le> 5
   \<and> (\<forall>iid ip. runInstances w (instance_request arch fl g w k) = Inr [iid]
        \<and> waitRunning w iid = Inr ip \<longrightarrow>
        (snd (startInstance arch fl g w k) = Inl ''unable to connect to instance'')
        = (\<forall>j<5. \<not> dial w j (ip @ '':22'')))"
proof (intro conjI allI impI)
  fix e
  assume "snd (gitCommitID w) = Inl e"
  from provision_git_error [OF this]
  show "main fl arch w NoSignal
      = \<lparr>mainTrace = fst (gitCommitID w) @ [print_error e, Return], workerTrace = []\<rparr>"
    by (simp add: main_failed)
next
  fix cid e
  assume "snd (gitCommitID w) = Inr cid \<and> snd (compileBenchmarkBinary w 0) = Inl e"
  then have "provision fl arch w
         = (fst (gitCommitID w) @ fst (compileBenchmarkBinary w 0) @ [print_error e], None)"
    using provision_build_error by blast
  then show "main fl arch w NoSignal
      = \<lparr>mainTrace = fst (gitCommitID w) @ fst (compileBenchmarkBinary w 0) @ [print_error e, Return],
         workerTrace = []\<rparr>"
    by (simp add: main_failed)
next
  fix cid bin e
  assume "snd (gitCommitID w) = Inr cid \<and> snd (compileBenchmarkBinary w 0) = Inr bin
        \<and> snd (snd (initAWS globals0 w)) = Some e"
  then have "provision fl arch w
         = (fst (gitCommitID w) @ fst (compileBenchmarkBinary w 0) @ fst (initAWS globals0 w)
              @ [print_error e], None)"
    using provision_aws_error by blast
  then show "main fl arch w NoSignal
      = \<lparr>mainTrace = fst (gitCommitID w) @ fst (compileBenchmarkBinary w 0)
                      @ fst (initAWS globals0 w) @ [print_error e, Return],
         workerTrace = []\<rparr>"
    by (simp add: main_failed)
next
  fix cid bin e
  assume "snd (gitCommitID w) = Inr cid \<and> snd (compileBenchmarkBinary w 0) = Inr bin
        \<and> snd (snd (initAWS globals0 w)) = None
        \<and> snd (startInstance arch fl (fst (snd (initAWS globals0 w))) w 1) = Inl e"
  then have "provision fl arch w
         = (fst (gitCommitID w) @ fst (compileBenchmarkBinary w 0) @ fst (initAWS globals0 w)
              @ [Print (cr # ''starting '' @ instanceType fl @ '' instance...'' @ clearStr)]
              @ fst (startInstance arch fl (fst (snd (initAWS globals0 w))) w 1)
              @ [print_error e], None)"
    using provision_start_error by blast
  then show "main fl arch w NoSignal
      = \<lparr>mainTrace = fst (gitCommitID w) @ fst (compileBenchmarkBinary w 0)
                      @ fst (initAWS globals0 w)
                      @ [Print (cr # ''starting '' @ instanceType fl @ '' instance...'' @ clearStr)]
                      @ fst (startInstance arch fl (fst (snd (initAWS globals0 w))) w 1)
                      @ [print_error e, Return],
         workerTrace = []\<rparr>"
    by (simp add: main_failed)
next
  fix p e
  assume a: "snd (provision fl arch w) = Some p \<and> cmd_err (scpRun w) = Some e"
  then have pr: "provision fl arch w = (fst (provision fl arch w), Some p)" by (simp add: prod_eq_iff)
  from a have "cmd_err (scpRun w) = Some e" by blast
  from main_completed [OF pr] worker_scp_error [OF this, of fl p]
  show "main fl arch w NoSignal
      = \<lparr>mainTrace = fst (provision fl arch w) @ [Notify]
                      @ fst (terminateInstance w (instanceID p)) @ [Exit 0],
         workerTrace =
           [Print (cr # ''ssh ready ('' @ publicIP p @ ''). uploading benchmark binary...'' @ clearStr),
            Exec ''scp'' (scp_args (vars p) w (benchFileName p) (publicIP p)) [],
            print_error (''failed to upload the binary: '' @ [nl] @ ''stdout: '' @ cmd_stdout (scpRun w)
                         @ [nl] @ ''stderr: '' @ cmd_stderr (scpRun w) @ '', '' @ e),
            CloseChan]\<rparr>"
    by simp
next
  show "length (filter (is_cmd ''go'')
        (mainTrace (main fl arch w sig) @ workerTrace (main fl arch w sig))) \<le> 1"
    by (rule main_step_calls)
  show "length (filter is_run_instances
        (mainTrace (main fl arch w sig) @ workerTrace (main fl arch w sig))) \<le> 1"
    by (rule main_run_calls)
  show "length (filter (is_cmd ''scp'')
        (mainTrace (main fl arch w sig) @ workerTrace (main fl arch w sig))) \<le> 1"
    by (rule main_step_calls)
  show "length (filter is_dial (fst (startInstance arch fl g w k))) \<le> 5"
    by (rule startInstance_dials)
next
  fix iid ip
  assume a: "runInstances w (instance_request arch fl g w k) = Inr [iid] \<and> waitRunning w iid = Inr ip"
  then have r: "runInstances w (instance_request arch fl g w k) = Inr [iid]"
    and v: "waitRunning w iid = Inr ip"
    by blast+
  have p: "snd (sshProbe w (ip @ '':22'') 0) = (\<exists>j<5. dial w j (ip @ '':22''))"
    by (simp add: sshProbe_result)
  show "(snd (startInstance arch fl g w k) = Inl ''unable to connect to instance'')
        = (\<forall>j<5. \<not> dial w j (ip @ '':22''))"
  proof (cases "snd (sshProbe w (ip @ '':22'') 0)")
    case True
    from startInstance_connected [OF r v True] True p show ?thesis by auto
  next
    case False
    from startInstance_unreachable [OF r v False] False p show ?thesis by auto
  qed
qed

theorem steps_fail_fast_witness:
  "main fl0 archX86 w_nobuild NoSignal
     = \<lparr>mainTrace = fst (gitCommitID w_nobuild) @ fst (compileBenchmarkBinary w_nobuild 0)
                     @ [print_error (''failed to cross build the package: '' @ [nl] @ ''stdout: ''
                                     @ [nl] @ ''stderr: no Go files, exit status 1''), Return],
        workerTrace = []\<rparr>
   \<and> filter (is_cmd ''ssh'') (workerTrace (main fl0 archX86 w_noscp NoSignal)) = []
   \<and> last (workerTrace (main fl0 archX86 w_noscp NoSignal)) = CloseChan"
proof -
  have b: "snd (gitCommitID w_nobuild) = Inr ''0123abc''
           \<and> snd (compileBenchmarkBinary w_nobuild 0)
             = Inl (''failed to cross build the package: '' @ [nl] @ ''stdout: ''
                    @ [nl] @ ''stderr: no Go files, exit status 1'')"
    by code_simp
  have s: "snd (provision fl0 archX86 w_noscp) = Some p0 \<and> cmd_err (scpRun w_noscp) = Some ''exit status 255''"
    by code_simp
  note t = steps_fail_fast [of w_nobuild fl0 archX86 NoSignal g1 1]
  from t b have x: "main fl0 archX86 w_nobuild NoSignal
     = \<lparr>mainTrace = fst (gitCommitID w_nobuild) @ fst (compileBenchmarkBinary w_nobuild 0)
                     @ [print_error (''failed to cross build the package: '' @ [nl] @ ''stdout: ''
                                     @ [nl] @ ''stderr: no Go files, exit status 1''), Return],
        workerTrace = []\<rparr>"
    by blast
  note u = steps_fail_fast [of w_noscp fl0 archX86 NoSignal g1 1]
  from u s have "workerTrace (main fl0 archX86 w_noscp NoSignal)
       = [Print (cr # ''ssh ready ('' @ publicIP p0 @ ''). uploading benchmark binary...'' @ clearStr),
            Exec ''scp'' (scp_args (vars p0) w_noscp (benchFileName p0) (publicIP p0)) [],
            print_error (''failed to upload the binary: '' @ [nl] @ ''stdout: '' @ cmd_stdout (scpRun w_noscp)
                         @ [nl] @ ''stderr: '' @ cmd_stderr (scpRun w_noscp) @ '', '' @ ''exit status 255''),
            CloseChan]"
    by (metis run_trace.select_convs(2))
  then have y: "filter (is_cmd ''ssh'') (workerTrace (main fl0 archX86 w_noscp NoSignal)) = []
       \<and> last (workerTrace (main fl0 archX86 w_noscp NoSignal)) = CloseChan"
    by (simp add: is_cmd_def print_error_def)
  from x y show ?thesis by blast
qed

text \<open>
  C5, as stated, fails: in the world \<open>w_retry\<close> the first connection attempt to port 22
  fails. \<^verbatim>\<open>startInstance\<close> sleeps and dials again, the second attempt connects, and the run
  goes on to the upload and the benchmark and ends with the regular teardown.
\<close>

theorem probe_retried_counterexample:
  "\<not> dial w_retry 0 ''1.2.3.4:22''
   \<and> filter is_dial (mainTrace (main fl0 archX86 w_retry NoSignal))
     = [Dial ''1.2.3.4:22'' 30, Dial ''1.2.3.4:22'' 30]
   \<and> snd (provision fl0 archX86 w_retry) = Some p0
   \<and> Exec ''scp'' (scp_args g1 w_retry ''/tmp/bench-abcdefg'' ''1.2.3.4'') []
       \<in> set (workerTrace (main fl0 archX86 w_retry NoSignal))
   \<and> Exec ''ssh'' (sshExec_args fl0 g1 w_retry ''1.2.3.4'') []
       \<in> set (workerTrace (main fl0 archX86 w_retry NoSignal))
   \<and> last (mainTrace (main fl0 archX86 w_retry NoSignal)) = Exit 0"
  by code_simp

end
